theory Spec2Isabelle
  imports Main "HOL-Library.Word"
begin

section \<open>Failures\<close>

text \<open>
  Every \<^verbatim>\<open>CM_EXCEPT\<close> / \<^verbatim>\<open>BS_EXCEPT\<close> of the sources raises
  \<^verbatim>\<open>InvalidParametersException\<close>; the text of the message is kept as data, one
  constructor per message of the sources, with the values the message is built from.
\<close>

datatype message =
    InvalidGpuResourceDataType
      \<comment> \<open>"Invalid GpuResourceData type. Only MeshData is supported."\<close>
  | InvalidSubMeshIndex nat nat
      \<comment> \<open>"Invalid sub-mesh index (i). Number of sub-meshes available: n"\<close>
  | UnsupportedParameterType
      \<comment> \<open>"Unsupported parameter type"\<close>
  | CannotFindParameter string string
      \<comment> \<open>"Cannot find <kind> parameter with the name '<name>'"\<close>

text \<open>
  Modelled from the spec: \<^verbatim>\<open>THROW_IF_NOT_CORE_THREAD\<close> (the macro is not among the
  sources) is the "thread-context violation": a fatal precondition failure raised when a
  device-mutating call is made off the render thread.
\<close>

datatype exception =
    InvalidParametersException message
  | CoreThreadViolation

text \<open>
  The outcome of an operation that changes state: it returns (\<open>Done\<close>, with the state
  it leaves), it raises (\<open>Thrown\<close>, with the state at the point of the raise), or it runs
  into undefined behaviour of C++ (a null pointer dereferenced, a \<^verbatim>\<open>memcpy\<close> outside
  its buffers), after which no state is described.
\<close>

datatype 'a result = Done 'a | Thrown exception 'a | Undefined

section \<open>Device buffers\<close>

type_synonym byte = "8 word"

datatype IndexType = IT_16BIT | IT_32BIT

text \<open>
  Modelled from the spec: the device buffer backend is an external collaborator
  (\<^verbatim>\<open>createIndexBuffer(type, count, usage)\<close>, \<^verbatim>\<open>createVertexBuffer(vertexSize, count, usage)\<close>,
  \<^verbatim>\<open>lock\<close>, \<^verbatim>\<open>unlock\<close>, \<^verbatim>\<open>getNumVertices\<close>, \<^verbatim>\<open>getVertexSize\<close>, \<^verbatim>\<open>getType\<close>).
  A buffer is its configuration and the bytes \<^verbatim>\<open>lock\<close> gives access to; the index
  element width is 16 or 32 bits, selected by the index type. The memory of a fresh
  buffer is taken to be zero.
\<close>

record IndexBuffer =
  ibType :: IndexType
  ibNumIndices :: nat
  ibBytes :: "byte list"

record VertexBuffer =
  vbVertexSize :: nat
  vbNumVertices :: nat
  vbBytes :: "byte list"

fun indexSizeOf :: "IndexType \<Rightarrow> nat" where
  "indexSizeOf IT_16BIT = 2"
| "indexSizeOf IT_32BIT = 4"

definition getIndexSize :: "IndexBuffer \<Rightarrow> nat" where
  "getIndexSize ib = indexSizeOf (ibType ib)"

definition createIndexBuffer :: "IndexType \<Rightarrow> nat \<Rightarrow> IndexBuffer" where
  "createIndexBuffer t n =
     \<lparr>ibType = t, ibNumIndices = n, ibBytes = replicate (n * indexSizeOf t) 0\<rparr>"

definition createVertexBuffer :: "nat \<Rightarrow> nat \<Rightarrow> VertexBuffer" where
  "createVertexBuffer vertexSize n =
     \<lparr>vbVertexSize = vertexSize, vbNumVertices = n, vbBytes = replicate (vertexSize * n) 0\<rparr>"

text \<open>
  \<^verbatim>\<open>memcpy(dst + p, src + q, n)\<close> on the bytes of two buffers: defined only when both
  ranges lie inside their buffers.
\<close>

definition memcpy :: "byte list \<Rightarrow> nat \<Rightarrow> byte list \<Rightarrow> nat \<Rightarrow> nat \<Rightarrow> byte list option" where
  "memcpy dst p src q n =
     (if p + n \<le> length dst \<and> q + n \<le> length src
      then Some (take p dst @ take n (drop q src) @ drop (p + n) dst)
      else None)"

section \<open>Vertex declarations\<close>

text \<open>
  Modelled from the spec: the vertex element enumerations and \<^verbatim>\<open>VertexDeclaration\<close>
  are not among the sources. An element has a type, a semantic, a semantic index, the
  stream it belongs to and its byte offset inside a vertex of that stream; only
  floating-point element types are modelled, four bytes per component.
\<close>

datatype VertexElementType = VET_FLOAT1 | VET_FLOAT2 | VET_FLOAT3 | VET_FLOAT4

datatype VertexElementSemantic =
  VES_POSITION | VES_NORMAL | VES_COLOR | VES_TEXCOORD | VES_TANGENT | VES_BITANGENT

fun getTypeSize :: "VertexElementType \<Rightarrow> nat" where
  "getTypeSize VET_FLOAT1 = 4"
| "getTypeSize VET_FLOAT2 = 8"
| "getTypeSize VET_FLOAT3 = 12"
| "getTypeSize VET_FLOAT4 = 16"

record VertexElement =
  veStreamIdx :: nat
  veOffset :: nat
  veType :: VertexElementType
  veSemantic :: VertexElementSemantic
  veSemanticIdx :: nat

definition getSize :: "VertexElement \<Rightarrow> nat" where
  "getSize e = getTypeSize (veType e)"

type_synonym VertexDeclaration = "VertexElement list"

definition getElementCount :: "VertexDeclaration \<Rightarrow> nat" where
  "getElementCount decl = length decl"

definition getElement :: "VertexDeclaration \<Rightarrow> nat \<Rightarrow> VertexElement" where
  "getElement decl j = decl ! j"

definition getVertexSize :: "VertexDeclaration \<Rightarrow> nat \<Rightarrow> nat" where
  "getVertexSize decl streamIdx =
     sum_list (map getSize (filter (\<lambda>e. veStreamIdx e = streamIdx) decl))"

section \<open>The mesh\<close>

datatype DrawOperationType =
  DOT_POINT_LIST | DOT_LINE_LIST | DOT_LINE_STRIP
| DOT_TRIANGLE_LIST | DOT_TRIANGLE_STRIP | DOT_TRIANGLE_FAN

record SubMesh =
  indexOffset :: nat
  indexCount :: nat
  drawOp :: DrawOperationType

text \<open>
  \<^verbatim>\<open>IndexData\<close> (CmIndexData.h): the buffer, the index to start from and the number
  of indexes to use.
\<close>

record IndexData =
  indexBuffer :: IndexBuffer
  indexStart :: nat
  indexCount :: nat

text \<open>
  Modelled from the spec: \<^verbatim>\<open>VertexData\<close> is not among the sources: a vertex count,
  a declaration and a per-stream buffer map. The map is kept as an association list in
  ascending order of the stream index, which is the order \<^verbatim>\<open>getBuffers()\<close> is
  iterated in.
\<close>

record VertexData =
  vertexCount :: nat
  vertexDeclaration :: VertexDeclaration
  vertexBuffers :: "(nat \<times> VertexBuffer) list"

fun setBuffer :: "nat \<Rightarrow> VertexBuffer \<Rightarrow> (nat \<times> VertexBuffer) list \<Rightarrow> (nat \<times> VertexBuffer) list" where
  "setBuffer i vb [] = [(i, vb)]"
| "setBuffer i vb ((k, b) # bs) =
     (if i = k then (i, vb) # bs
      else if i < k then (i, vb) # (k, b) # bs
      else (k, b) # setBuffer i vb bs)"

text \<open>
  \<^verbatim>\<open>Mesh\<close>: the two shared pointers are \<open>None\<close> when null, as the constructor
  leaves them. The \<^verbatim>\<open>UINT32\<close> counts, offsets and sizes are natural numbers: nothing
  here depends on their wrap-around.
\<close>

record Mesh =
  mVertexData :: "VertexData option"
  mIndexData :: "IndexData option"
  mSubMeshes :: "SubMesh list"

definition Mesh_ctor :: Mesh where
  "Mesh_ctor = \<lparr>mVertexData = None, mIndexData = None, mSubMeshes = []\<rparr>"

record RenderOpMesh =
  indexData :: "IndexData option"
  vertexData :: "VertexData option"
  useIndexes :: bool
  operationType :: DrawOperationType

section \<open>The mesh-data container\<close>

text \<open>
  Modelled from the spec: \<^verbatim>\<open>GpuResourceData\<close> and \<^verbatim>\<open>MeshData\<close> are not among the
  sources. The opaque container has a type id; the mesh-data shape exposes per-submesh
  index range and draw operation, per-stream raw bytes and sizes, the index element size
  and type, and the builder \<^verbatim>\<open>beginDesc\<close>/\<^verbatim>\<open>addVertElem\<close>/\<^verbatim>\<open>addSubMesh\<close>/\<^verbatim>\<open>endDesc\<close>.
  Submeshes lie one after the other in the index data, so the index range of a submesh
  starts where the ranges of the submeshes before it end; the size of a stream is the
  size of its vertex times the number of vertices.
\<close>

record IndexElementData =
  numIndices :: nat
  subMeshDrawOp :: DrawOperationType

record MeshData =
  md_numVertices :: nat
  md_indexType :: IndexType
  md_subMeshes :: "IndexElementData list"
  md_vertexElements :: "VertexElement list"
  md_indexBytes :: "byte list"
  md_streamBytes :: "nat \<Rightarrow> byte list"

datatype TypeId = TID_MeshData | TID_Other nat

datatype GpuResourceData = MeshData_of MeshData | OtherData nat

fun getTypeId :: "GpuResourceData \<Rightarrow> TypeId" where
  "getTypeId (MeshData_of _) = TID_MeshData"
| "getTypeId (OtherData n) = TID_Other n"

text \<open>
  Modelled from the spec: the accessors of \<^verbatim>\<open>MeshData\<close> that the mesh calls.
  \<^verbatim>\<open>getNumIndices(subMesh)\<close> and \<^verbatim>\<open>getDrawOp(subMesh)\<close> are called with
  \<open>i < getNumSubmeshes d\<close> only.
\<close>

definition getNumSubmeshes :: "MeshData \<Rightarrow> nat" where
  "getNumSubmeshes d = length (md_subMeshes d)"

definition getNumIndices_subMesh :: "MeshData \<Rightarrow> nat \<Rightarrow> nat" where
  "getNumIndices_subMesh d i = numIndices (md_subMeshes d ! i)"

definition getDrawOp :: "MeshData \<Rightarrow> nat \<Rightarrow> DrawOperationType" where
  "getDrawOp d i = subMeshDrawOp (md_subMeshes d ! i)"

definition getIndexBufferOffset :: "MeshData \<Rightarrow> nat \<Rightarrow> nat" where
  "getIndexBufferOffset d i = sum_list (map numIndices (take i (md_subMeshes d)))"

definition getNumIndices :: "MeshData \<Rightarrow> nat" where
  "getNumIndices d = sum_list (map numIndices (md_subMeshes d))"

definition getIndexType :: "MeshData \<Rightarrow> IndexType" where
  "getIndexType d = md_indexType d"

definition getIndexElementSize :: "MeshData \<Rightarrow> nat" where
  "getIndexElementSize d = indexSizeOf (md_indexType d)"

definition getIndexBufferSize :: "MeshData \<Rightarrow> nat" where
  "getIndexBufferSize d = getNumIndices d * getIndexElementSize d"

definition getIndexData :: "MeshData \<Rightarrow> byte list" where
  "getIndexData d = md_indexBytes d"

text \<open>
  Modelled from the spec: \<^verbatim>\<open>getIndices16(subMesh)\<close> and \<^verbatim>\<open>getIndices32(subMesh)\<close>
  point at the indices of a submesh; the pointer is kept as its position, in bytes,
  inside the index data.
\<close>

definition getIndices16 :: "MeshData \<Rightarrow> nat \<Rightarrow> nat" where
  "getIndices16 d i = getIndexBufferOffset d i * getIndexElementSize d"

definition getIndices32 :: "MeshData \<Rightarrow> nat \<Rightarrow> nat" where
  "getIndices32 d i = getIndexBufferOffset d i * getIndexElementSize d"

definition getNumVertices :: "MeshData \<Rightarrow> nat" where
  "getNumVertices d = md_numVertices d"

definition hasStream :: "MeshData \<Rightarrow> nat \<Rightarrow> bool" where
  "hasStream d streamIdx = (streamIdx \<in> set (map veStreamIdx (md_vertexElements d)))"

definition getMaxStreamIdx :: "MeshData \<Rightarrow> nat" where
  "getMaxStreamIdx d = fold max (map veStreamIdx (md_vertexElements d)) 0"

definition getStreamSize :: "MeshData \<Rightarrow> nat \<Rightarrow> nat" where
  "getStreamSize d streamIdx = getVertexSize (md_vertexElements d) streamIdx * md_numVertices d"

definition getStreamData :: "MeshData \<Rightarrow> nat \<Rightarrow> byte list" where
  "getStreamData d streamIdx = md_streamBytes d streamIdx"

text \<open>
  Modelled from the spec: \<^verbatim>\<open>createDeclaration\<close> gives the elements of the container,
  each at the running offset of its stream.
\<close>

fun declElements :: "VertexElement list \<Rightarrow> (nat \<Rightarrow> nat) \<Rightarrow> VertexElement list" where
  "declElements [] offs = []"
| "declElements (e # es) offs =
     e\<lparr>veOffset := offs (veStreamIdx e)\<rparr>
       # declElements es (offs(veStreamIdx e := offs (veStreamIdx e) + getSize e))"

definition createDeclaration :: "MeshData \<Rightarrow> VertexDeclaration" where
  "createDeclaration d = declElements (md_vertexElements d) (\<lambda>_. 0)"

subsection \<open>The builder\<close>

text \<open>
  Modelled from the spec: the constructor \<^verbatim>\<open>MeshData(numVertices, indexType)\<close> and
  \<^verbatim>\<open>beginDesc\<close>, which starts an empty description.
\<close>

definition MeshData_ctor :: "nat \<Rightarrow> IndexType \<Rightarrow> MeshData" where
  "MeshData_ctor numVertices indexType =
     \<lparr>md_numVertices = numVertices, md_indexType = indexType, md_subMeshes = [],
      md_vertexElements = [], md_indexBytes = [], md_streamBytes = (\<lambda>_. [])\<rparr>"

definition beginDesc :: "MeshData \<Rightarrow> MeshData" where
  "beginDesc d = d\<lparr>md_subMeshes := [], md_vertexElements := []\<rparr>"

text \<open>
  Modelled from the spec: \<^verbatim>\<open>addSubMesh(numIndices, subMesh)\<close> describes submesh
  number \<open>subMesh\<close>; the mesh calls it with no draw operation, which is then the
  triangle list.
\<close>

definition addSubMesh :: "nat \<Rightarrow> nat \<Rightarrow> MeshData \<Rightarrow> MeshData" where
  "addSubMesh n subMesh d =
     d\<lparr>md_subMeshes :=
         (md_subMeshes d
            @ replicate (Suc subMesh - length (md_subMeshes d))
                \<lparr>numIndices = 0, subMeshDrawOp = DOT_TRIANGLE_LIST\<rparr>)
         [subMesh := \<lparr>numIndices = n, subMeshDrawOp = DOT_TRIANGLE_LIST\<rparr>]\<rparr>"

text \<open>
  Modelled from the spec: \<^verbatim>\<open>addVertElem(type, semantic, semanticIdx, streamIdx)\<close> puts
  the element after the elements of its stream and of the streams before.
\<close>

fun insertElem :: "VertexElement \<Rightarrow> VertexElement list \<Rightarrow> VertexElement list" where
  "insertElem e [] = [e]"
| "insertElem e (x # xs) =
     (if veStreamIdx x > veStreamIdx e then e # x # xs else x # insertElem e xs)"

definition addVertElem ::
  "VertexElementType \<Rightarrow> VertexElementSemantic \<Rightarrow> nat \<Rightarrow> nat \<Rightarrow> MeshData \<Rightarrow> MeshData" where
  "addVertElem type semantic semanticIdx streamIdx d =
     d\<lparr>md_vertexElements :=
         insertElem \<lparr>veStreamIdx = streamIdx, veOffset = 0, veType = type,
                     veSemantic = semantic, veSemanticIdx = semanticIdx\<rparr>
           (md_vertexElements d)\<rparr>"

text \<open>Modelled from the spec: \<^verbatim>\<open>endDesc\<close> allocates the storage the description asks for.\<close>

definition endDesc :: "MeshData \<Rightarrow> MeshData" where
  "endDesc d =
     d\<lparr>md_indexBytes := replicate (getIndexBufferSize d) 0,
       md_streamBytes := (\<lambda>streamIdx. replicate (getStreamSize d streamIdx) 0)\<rparr>"

text \<open>
  Modelled from the spec: what \<^verbatim>\<open>endDesc\<close> establishes, and what holds of a container
  filled through its pointers afterwards: the storage has the sizes of the description.
\<close>

definition MeshData_allocated :: "MeshData \<Rightarrow> bool" where
  "MeshData_allocated d \<longleftrightarrow>
     length (md_indexBytes d) = getIndexBufferSize d
     \<and> (\<forall>i \<in> set (map veStreamIdx (md_vertexElements d)).
          length (md_streamBytes d i) = getStreamSize d i)"

section \<open>Mesh operations\<close>

subsection \<open>\<^verbatim>\<open>Mesh::writeSubresource\<close>\<close>

text \<open>The loop over the submeshes of the container, \<open>subs\<close> being \<^verbatim>\<open>mSubMeshes\<close>.\<close>

fun writeSubMeshes :: "MeshData \<Rightarrow> nat list \<Rightarrow> SubMesh list \<Rightarrow> SubMesh list" where
  "writeSubMeshes meshData [] subs = subs"
| "writeSubMeshes meshData (i # is) subs =
     (let n = getNumIndices_subMesh meshData i in
      if n > 0
      then writeSubMeshes meshData is
             (subs @ [\<lparr>indexOffset = getIndexBufferOffset meshData i, indexCount = n,
                       drawOp = getDrawOp meshData i\<rparr>])
      else writeSubMeshes meshData is subs)"

text \<open>
  The loop over the streams. The buffer registered by \<^verbatim>\<open>setBuffer\<close> is the one
  locked and written afterwards (a shared pointer), so the registered value is the
  written buffer.
\<close>

fun writeStreams :: "MeshData \<Rightarrow> nat list \<Rightarrow> VertexData \<Rightarrow> VertexData option" where
  "writeStreams meshData [] vd = Some vd"
| "writeStreams meshData (i # is) vd =
     (if \<not> hasStream meshData i then writeStreams meshData is vd
      else
        let vertexBuffer = createVertexBuffer (getVertexSize (vertexDeclaration vd) i)
                             (vertexCount vd);
            bufferSize = getStreamSize meshData i
        in case memcpy (vbBytes vertexBuffer) 0 (getStreamData meshData i) 0 bufferSize of
             None \<Rightarrow> None
           | Some bytes \<Rightarrow>
               writeStreams meshData is
                 (vd\<lparr>vertexBuffers :=
                       setBuffer i (vertexBuffer\<lparr>vbBytes := bytes\<rparr>) (vertexBuffers vd)\<rparr>))"

text \<open>
  The constructor of \<^verbatim>\<open>IndexData\<close> is not among the sources; \<^verbatim>\<open>indexStart\<close>, which
  \<^verbatim>\<open>writeSubresource\<close> does not assign, is taken to start at 0. The first parameter
  says whether the call is made on the core thread.
\<close>

definition writeSubresource :: "bool \<Rightarrow> Mesh \<Rightarrow> GpuResourceData \<Rightarrow> Mesh result" where
  "writeSubresource onCoreThread m data =
     (if \<not> onCoreThread then Thrown CoreThreadViolation m
      else if getTypeId data \<noteq> TID_MeshData
      then Thrown (InvalidParametersException InvalidGpuResourceDataType) m
      else case data of
        OtherData _ \<Rightarrow> Undefined
      | MeshData_of meshData \<Rightarrow>
          let m1 = m\<lparr>mSubMeshes := []\<rparr>;
              m2 = m1\<lparr>mSubMeshes :=
                        writeSubMeshes meshData [0..<getNumSubmeshes meshData] (mSubMeshes m1)\<rparr>;
              ib = createIndexBuffer (getIndexType meshData) (getNumIndices meshData);
              indicesSize = getIndexBufferSize meshData
          in case memcpy (ibBytes ib) 0 (getIndexData meshData) 0 indicesSize of
               None \<Rightarrow> Undefined
             | Some idxBytes \<Rightarrow>
                 let m3 = m2\<lparr>mIndexData :=
                               Some \<lparr>indexBuffer = ib\<lparr>ibBytes := idxBytes\<rparr>, indexStart = 0,
                                     indexCount = getNumIndices meshData\<rparr>\<rparr>;
                     vd = \<lparr>vertexCount = getNumVertices meshData,
                           vertexDeclaration = createDeclaration meshData,
                           vertexBuffers = []\<rparr>
                 in case writeStreams meshData [0..<Suc (getMaxStreamIdx meshData)] vd of
                      None \<Rightarrow> Undefined
                    | Some vd' \<Rightarrow> Done (m3\<lparr>mVertexData := Some vd'\<rparr>))"

subsection \<open>\<^verbatim>\<open>Mesh::readSubresource\<close>\<close>

fun readIndices ::
  "IndexType \<Rightarrow> IndexBuffer \<Rightarrow> SubMesh list \<Rightarrow> nat list \<Rightarrow> MeshData \<Rightarrow> MeshData option" where
  "readIndices indexType ib subs [] meshData = Some meshData"
| "readIndices indexType ib subs (i # is) meshData =
     (let idxElemSize = getIndexSize ib;
          indices = (if indexType = IT_16BIT then getIndices16 meshData i
                     else getIndices32 meshData i)
      in case memcpy (md_indexBytes meshData) indices
                (ibBytes ib) (SubMesh.indexOffset (subs ! i) * idxElemSize)
                (SubMesh.indexCount (subs ! i) * idxElemSize) of
           None \<Rightarrow> None
         | Some bytes \<Rightarrow>
             readIndices indexType ib subs is (meshData\<lparr>md_indexBytes := bytes\<rparr>))"

text \<open>
  The loop over the vertex buffers: \<open>streamIdx\<close> is the counter of the source, which
  starts at 0 and is incremented per buffer; the key of the buffer is not used.
\<close>

fun readStreams :: "(nat \<times> VertexBuffer) list \<Rightarrow> nat \<Rightarrow> MeshData \<Rightarrow> MeshData option" where
  "readStreams [] streamIdx meshData = Some meshData"
| "readStreams ((k, vertexBuffer) # rest) streamIdx meshData =
     (let bufferSize = vbVertexSize vertexBuffer * vbNumVertices vertexBuffer in
      case memcpy (getStreamData meshData streamIdx) 0 (vbBytes vertexBuffer) 0 bufferSize of
        None \<Rightarrow> None
      | Some bytes \<Rightarrow>
          readStreams rest (Suc streamIdx)
            (meshData\<lparr>md_streamBytes := (md_streamBytes meshData)(streamIdx := bytes)\<rparr>))"

definition readSubresource ::
  "bool \<Rightarrow> Mesh \<Rightarrow> GpuResourceData \<Rightarrow> (Mesh \<times> GpuResourceData) result" where
  "readSubresource onCoreThread m data =
     (if \<not> onCoreThread then Thrown CoreThreadViolation (m, data)
      else if getTypeId data \<noteq> TID_MeshData
      then Thrown (InvalidParametersException InvalidGpuResourceDataType) (m, data)
      else
        let indexType = (case mIndexData m of None \<Rightarrow> IT_32BIT
                         | Some idata \<Rightarrow> ibType (indexBuffer idata))
        in case data of
          OtherData _ \<Rightarrow> Undefined
        | MeshData_of meshData \<Rightarrow>
            (case (case mIndexData m of
                     None \<Rightarrow> Some meshData
                   | Some idata \<Rightarrow>
                       readIndices indexType (indexBuffer idata) (mSubMeshes m)
                         [0..<length (mSubMeshes m)] meshData) of
               None \<Rightarrow> Undefined
             | Some meshData1 \<Rightarrow>
                 (case (case mVertexData m of
                          None \<Rightarrow> Some meshData1
                        | Some vd \<Rightarrow> readStreams (vertexBuffers vd) 0 meshData1) of
                    None \<Rightarrow> Undefined
                  | Some meshData2 \<Rightarrow> Done (m, MeshData_of meshData2))))"

subsection \<open>\<^verbatim>\<open>Mesh::allocateSubresourceBuffer\<close>\<close>

text \<open>
  The loop over the vertex buffers, with its counter \<open>streamIdx\<close>; for each buffer
  the inner loop runs over all \<open>numElements\<close> elements of the declaration.
\<close>

fun allocStreams ::
  "(nat \<times> VertexBuffer) list \<Rightarrow> VertexDeclaration \<Rightarrow> nat \<Rightarrow> MeshData \<Rightarrow> MeshData" where
  "allocStreams [] decl streamIdx meshData = meshData"
| "allocStreams ((k, vertexBuffer) # rest) decl streamIdx meshData =
     (let numElements = getElementCount decl in
      allocStreams rest decl (Suc streamIdx)
        (foldl (\<lambda>md j.
                  let element = getElement decl j in
                  addVertElem (veType element) (veSemantic element) (veSemanticIdx element)
                    streamIdx md)
           meshData [0..<numElements]))"

text \<open>
  \<^verbatim>\<open>mVertexData->vertexCount\<close> is read where the container is constructed, before
  the test \<^verbatim>\<open>if(mVertexData)\<close>: with a null \<^verbatim>\<open>mVertexData\<close> that is a null pointer
  dereferenced.
\<close>

definition allocateSubresourceBuffer :: "Mesh \<Rightarrow> MeshData result" where
  "allocateSubresourceBuffer m =
     (let indexType = (case mIndexData m of None \<Rightarrow> IT_32BIT
                       | Some idata \<Rightarrow> ibType (indexBuffer idata))
      in case mVertexData m of
        None \<Rightarrow> Undefined
      | Some vd0 \<Rightarrow>
          let meshData = MeshData_ctor (vertexCount vd0) indexType;
              meshData = beginDesc meshData;
              meshData =
                (if mIndexData m \<noteq> None
                 then foldl (\<lambda>md i. addSubMesh (SubMesh.indexCount (mSubMeshes m ! i)) i md)
                        meshData [0..<length (mSubMeshes m)]
                 else meshData);
              meshData =
                (case mVertexData m of
                   None \<Rightarrow> meshData
                 | Some vd \<Rightarrow>
                     allocStreams (vertexBuffers vd) (vertexDeclaration vd) 0 meshData)
          in Done (endDesc meshData))"

subsection \<open>\<^verbatim>\<open>Mesh::getSubMeshData\<close>\<close>

text \<open>
  \<^verbatim>\<open>subMeshIdx\<close> is a \<^verbatim>\<open>UINT32\<close>: the first disjunct of the test can never hold.
\<close>

definition getSubMeshData :: "Mesh \<Rightarrow> nat \<Rightarrow> exception + RenderOpMesh" where
  "getSubMeshData m subMeshIdx =
     (if subMeshIdx < 0 \<or> subMeshIdx \<ge> length (mSubMeshes m)
      then Inl (InvalidParametersException
                  (InvalidSubMeshIndex subMeshIdx (length (mSubMeshes m))))
      else Inr \<lparr>indexData = mIndexData m,
                vertexData = mVertexData m,
                useIndexes = True,
                operationType = drawOp (mSubMeshes m ! subMeshIdx)\<rparr>)"

section \<open>GPU parameters\<close>

text \<open>
  Modelled from the spec: \<^verbatim>\<open>GpuParamDesc\<close> and the parameter handles are not among the
  sources. The descriptor set maps a parameter name to its type, block index, offset
  and array size; of the type tags only the six that \<^verbatim>\<open>getParam\<close> tests are named.
  A handle refers to the descriptor of its parameter and to the internal data of the
  store it came from.
\<close>

datatype GpuParamDataType =
  GPDT_FLOAT1 | GPDT_FLOAT2 | GPDT_FLOAT3 | GPDT_FLOAT4
| GPDT_MATRIX_3X3 | GPDT_MATRIX_4X4 | GPDT_OTHER nat

record GpuParamDataDesc =
  gpType :: GpuParamDataType
  gpBlockIndex :: nat
  gpOffset :: nat
  gpArraySize :: nat

record GpuParamDesc =
  params :: "string \<rightharpoonup> GpuParamDataDesc"

text \<open>\<^verbatim>\<open>GpuParamsInternalData\<close>, with the arrays as lists of references.\<close>

record GpuParamsInternalData =
  mData :: "byte list"
  mNumParamBlocks :: nat
  mNumTextures :: nat
  mNumSamplerStates :: nat
  mParamBlocks :: "nat list"
  mParamBlockBuffers :: "nat list"
  mTextures :: "nat list"
  mSamplerStates :: "nat list"
  mTransposeMatrices :: bool
  mIsDestroyed :: bool

record GpuParams =
  mParamDesc :: GpuParamDesc
  mInternalData :: GpuParamsInternalData

record TGpuDataParam =
  hParamDesc :: GpuParamDataDesc
  hInternalData :: GpuParamsInternalData

text \<open>The element type \<open>T\<close> of \<^verbatim>\<open>getParam<T>\<close>; \<open>T_other\<close> is any type with no specialisation.\<close>

datatype ElemType = T_float | T_Vector2 | T_Vector3 | T_Vector4 | T_Matrix3 | T_Matrix4 | T_other

definition getParam_float :: "GpuParams \<Rightarrow> string \<Rightarrow> exception + TGpuDataParam" where
  "getParam_float p name =
     (let iterFind = params (mParamDesc p) name in
      if iterFind = None \<or> gpType (the iterFind) \<noteq> GPDT_FLOAT1
      then Inl (InvalidParametersException (CannotFindParameter ''float'' name))
      else Inr \<lparr>hParamDesc = the iterFind, hInternalData = mInternalData p\<rparr>)"

definition getParam_Vector2 :: "GpuParams \<Rightarrow> string \<Rightarrow> exception + TGpuDataParam" where
  "getParam_Vector2 p name =
     (let iterFind = params (mParamDesc p) name in
      if iterFind = None \<or> gpType (the iterFind) \<noteq> GPDT_FLOAT2
      then Inl (InvalidParametersException (CannotFindParameter ''vector (2)'' name))
      else Inr \<lparr>hParamDesc = the iterFind, hInternalData = mInternalData p\<rparr>)"

definition getParam_Vector3 :: "GpuParams \<Rightarrow> string \<Rightarrow> exception + TGpuDataParam" where
  "getParam_Vector3 p name =
     (let iterFind = params (mParamDesc p) name in
      if iterFind = None \<or> gpType (the iterFind) \<noteq> GPDT_FLOAT3
      then Inl (InvalidParametersException (CannotFindParameter ''vector (3)'' name))
      else Inr \<lparr>hParamDesc = the iterFind, hInternalData = mInternalData p\<rparr>)"

definition getParam_Vector4 :: "GpuParams \<Rightarrow> string \<Rightarrow> exception + TGpuDataParam" where
  "getParam_Vector4 p name =
     (let iterFind = params (mParamDesc p) name in
      if iterFind = None \<or> gpType (the iterFind) \<noteq> GPDT_FLOAT4
      then Inl (InvalidParametersException (CannotFindParameter ''vector (4)'' name))
      else Inr \<lparr>hParamDesc = the iterFind, hInternalData = mInternalData p\<rparr>)"

definition getParam_Matrix3 :: "GpuParams \<Rightarrow> string \<Rightarrow> exception + TGpuDataParam" where
  "getParam_Matrix3 p name =
     (let iterFind = params (mParamDesc p) name in
      if iterFind = None \<or> gpType (the iterFind) \<noteq> GPDT_MATRIX_3X3
      then Inl (InvalidParametersException (CannotFindParameter ''matrix (3x3)'' name))
      else Inr \<lparr>hParamDesc = the iterFind, hInternalData = mInternalData p\<rparr>)"

definition getParam_Matrix4 :: "GpuParams \<Rightarrow> string \<Rightarrow> exception + TGpuDataParam" where
  "getParam_Matrix4 p name =
     (let iterFind = params (mParamDesc p) name in
      if iterFind = None \<or> gpType (the iterFind) \<noteq> GPDT_MATRIX_4X4
      then Inl (InvalidParametersException (CannotFindParameter ''matrix (4x4)'' name))
      else Inr \<lparr>hParamDesc = the iterFind, hInternalData = mInternalData p\<rparr>)"

text \<open>The template with its specialisations: the primary template raises for any other type.\<close>

fun getParam :: "ElemType \<Rightarrow> GpuParams \<Rightarrow> string \<Rightarrow> exception + TGpuDataParam" where
  "getParam T_float p name = getParam_float p name"
| "getParam T_Vector2 p name = getParam_Vector2 p name"
| "getParam T_Vector3 p name = getParam_Vector3 p name"
| "getParam T_Vector4 p name = getParam_Vector4 p name"
| "getParam T_Matrix3 p name = getParam_Matrix3 p name"
| "getParam T_Matrix4 p name = getParam_Matrix4 p name"
| "getParam T_other p name = Inl (InvalidParametersException UnsupportedParameterType)"

section \<open>Graphics pipeline state\<close>

text \<open>
  Shader programs and fixed-function state objects are opaque references; a null
  shared pointer is \<open>None\<close>.
\<close>

record PIPELINE_STATE_DESC =
  blendState :: "nat option"
  rasterizerState :: "nat option"
  depthStencilState :: "nat option"
  vertexProgram :: "nat option"
  fragmentProgram :: "nat option"
  geometryProgram :: "nat option"
  hullProgram :: "nat option"
  domainProgram :: "nat option"

text \<open>
  \<^verbatim>\<open>mParamInfo\<close>: the derived parameter-info object, kept as the programs whose
  parameter layouts it unites.
\<close>

record TGraphicsPipelineState =
  psData :: PIPELINE_STATE_DESC
  mParamInfo :: "nat list"

definition hasVertexProgram :: "TGraphicsPipelineState \<Rightarrow> bool" where
  "hasVertexProgram s = (vertexProgram (psData s) \<noteq> None)"

definition hasFragmentProgram :: "TGraphicsPipelineState \<Rightarrow> bool" where
  "hasFragmentProgram s = (fragmentProgram (psData s) \<noteq> None)"

definition hasGeometryProgram :: "TGraphicsPipelineState \<Rightarrow> bool" where
  "hasGeometryProgram s = (geometryProgram (psData s) \<noteq> None)"

definition hasHullProgram :: "TGraphicsPipelineState \<Rightarrow> bool" where
  "hasHullProgram s = (hullProgram (psData s) \<noteq> None)"

definition hasDomainProgram :: "TGraphicsPipelineState \<Rightarrow> bool" where
  "hasDomainProgram s = (domainProgram (psData s) \<noteq> None)"

text \<open>
  Modelled from the spec: the constructor \<^verbatim>\<open>TGraphicsPipelineState(const StateDescType&)\<close>
  is declared in the header and its body is not among the sources. Construction is the
  only mutation point: it keeps the descriptor, derives the parameter info from the
  stages that are set (vertex, fragment, geometry, hull, domain) and validates nothing,
  program linkage being attempted only when the core counterpart is realised.
\<close>

definition TGraphicsPipelineState_ctor ::
  "PIPELINE_STATE_DESC \<Rightarrow> exception + TGraphicsPipelineState" where
  "TGraphicsPipelineState_ctor desc =
     Inr \<lparr>psData = desc,
          mParamInfo = List.map_filter id
            [vertexProgram desc, fragmentProgram desc, geometryProgram desc,
             hullProgram desc, domainProgram desc]\<rparr>"

section \<open>Example inputs\<close>

text \<open>
  A container with one stream of one vertex and three submeshes, the second of them
  with no indices, and the mesh that writing it gives.
\<close>

definition exampleMeshData :: MeshData where
  "exampleMeshData =
     \<lparr>md_numVertices = 1, md_indexType = IT_16BIT,
      md_subMeshes = [\<lparr>numIndices = 2, subMeshDrawOp = DOT_TRIANGLE_LIST\<rparr>,
                      \<lparr>numIndices = 0, subMeshDrawOp = DOT_POINT_LIST\<rparr>,
                      \<lparr>numIndices = 1, subMeshDrawOp = DOT_LINE_LIST\<rparr>],
      md_vertexElements =
        [\<lparr>veStreamIdx = 0, veOffset = 0, veType = VET_FLOAT1,
          veSemantic = VES_POSITION, veSemanticIdx = 0\<rparr>],
      md_indexBytes = [0, 0, 1, 0, 2, 0],
      md_streamBytes = (\<lambda>s. if s = 0 then [1, 2, 3, 4] else [])\<rparr>"

definition exampleMesh :: Mesh where
  "exampleMesh =
     \<lparr>mVertexData = Some \<lparr>vertexCount = 1,
         vertexDeclaration = [\<lparr>veStreamIdx = 0, veOffset = 0, veType = VET_FLOAT1,
                                veSemantic = VES_POSITION, veSemanticIdx = 0\<rparr>],
         vertexBuffers = [(0, \<lparr>vbVertexSize = 4, vbNumVertices = 1, vbBytes = [1, 2, 3, 4]\<rparr>)]\<rparr>,
      mIndexData = Some \<lparr>indexBuffer = \<lparr>ibType = IT_16BIT, ibNumIndices = 3,
                                          ibBytes = [0, 0, 1, 0, 2, 0]\<rparr>,
                         indexStart = 0, indexCount = 3\<rparr>,
      mSubMeshes = [\<lparr>indexOffset = 0, indexCount = 2, drawOp = DOT_TRIANGLE_LIST\<rparr>,
                    \<lparr>indexOffset = 2, indexCount = 1, drawOp = DOT_LINE_LIST\<rparr>]\<rparr>"

text \<open>A mesh with vertex data and no index data.\<close>

definition verticesOnlyMesh :: Mesh where
  "verticesOnlyMesh =
     \<lparr>mVertexData = Some \<lparr>vertexCount = 0, vertexDeclaration = [], vertexBuffers = []\<rparr>,
      mIndexData = None, mSubMeshes = []\<rparr>"

text \<open>
  A container with two streams of two vertices, a position in stream 0 and a texture
  coordinate in stream 1, and one submesh of one index.
\<close>

definition twoStreamMeshData :: MeshData where
  "twoStreamMeshData =
     \<lparr>md_numVertices = 2, md_indexType = IT_16BIT,
      md_subMeshes = [\<lparr>numIndices = 1, subMeshDrawOp = DOT_TRIANGLE_LIST\<rparr>],
      md_vertexElements =
        [\<lparr>veStreamIdx = 0, veOffset = 0, veType = VET_FLOAT1,
          veSemantic = VES_POSITION, veSemanticIdx = 0\<rparr>,
         \<lparr>veStreamIdx = 1, veOffset = 0, veType = VET_FLOAT1,
          veSemantic = VES_TEXCOORD, veSemanticIdx = 0\<rparr>],
      md_indexBytes = [1, 0],
      md_streamBytes = (\<lambda>s. if s = 0 then [1, 2, 3, 4, 5, 6, 7, 8]
                             else if s = 1 then [9, 10, 11, 12, 13, 14, 15, 16] else [])\<rparr>"

definition twoStreamMesh :: Mesh where
  "twoStreamMesh =
     \<lparr>mVertexData = Some \<lparr>vertexCount = 2,
         vertexDeclaration = [\<lparr>veStreamIdx = 0, veOffset = 0, veType = VET_FLOAT1,
                                veSemantic = VES_POSITION, veSemanticIdx = 0\<rparr>,
                              \<lparr>veStreamIdx = 1, veOffset = 0, veType = VET_FLOAT1,
                                veSemantic = VES_TEXCOORD, veSemanticIdx = 0\<rparr>],
         vertexBuffers =
           [(0, \<lparr>vbVertexSize = 4, vbNumVertices = 2, vbBytes = [1, 2, 3, 4, 5, 6, 7, 8]\<rparr>),
            (1, \<lparr>vbVertexSize = 4, vbNumVertices = 2,
                 vbBytes = [9, 10, 11, 12, 13, 14, 15, 16]\<rparr>)]\<rparr>,
      mIndexData = Some \<lparr>indexBuffer = \<lparr>ibType = IT_16BIT, ibNumIndices = 1, ibBytes = [1, 0]\<rparr>,
                         indexStart = 0, indexCount = 1\<rparr>,
      mSubMeshes = [\<lparr>indexOffset = 0, indexCount = 1, drawOp = DOT_TRIANGLE_LIST\<rparr>]\<rparr>"

text \<open>
  The containers that \<^verbatim>\<open>allocateSubresourceBuffer\<close> builds for \<open>exampleMesh\<close> and for
  \<open>twoStreamMesh\<close>: the description, with the storage \<^verbatim>\<open>endDesc\<close> allocates for it.
\<close>

definition exampleBuffer :: MeshData where
  "exampleBuffer = endDesc
     \<lparr>md_numVertices = 1, md_indexType = IT_16BIT,
      md_subMeshes = [\<lparr>numIndices = 2, subMeshDrawOp = DOT_TRIANGLE_LIST\<rparr>,
                      \<lparr>numIndices = 1, subMeshDrawOp = DOT_TRIANGLE_LIST\<rparr>],
      md_vertexElements =
        [\<lparr>veStreamIdx = 0, veOffset = 0, veType = VET_FLOAT1,
          veSemantic = VES_POSITION, veSemanticIdx = 0\<rparr>],
      md_indexBytes = [], md_streamBytes = (\<lambda>_. [])\<rparr>"

definition twoStreamBuffer :: MeshData where
  "twoStreamBuffer = endDesc
     \<lparr>md_numVertices = 2, md_indexType = IT_16BIT,
      md_subMeshes = [\<lparr>numIndices = 1, subMeshDrawOp = DOT_TRIANGLE_LIST\<rparr>],
      md_vertexElements =
        [\<lparr>veStreamIdx = 0, veOffset = 0, veType = VET_FLOAT1,
          veSemantic = VES_POSITION, veSemanticIdx = 0\<rparr>,
         \<lparr>veStreamIdx = 0, veOffset = 0, veType = VET_FLOAT1,
          veSemantic = VES_TEXCOORD, veSemanticIdx = 0\<rparr>,
         \<lparr>veStreamIdx = 1, veOffset = 0, veType = VET_FLOAT1,
          veSemantic = VES_POSITION, veSemanticIdx = 0\<rparr>,
         \<lparr>veStreamIdx = 1, veOffset = 0, veType = VET_FLOAT1,
          veSemantic = VES_TEXCOORD, veSemanticIdx = 0\<rparr>],
      md_indexBytes = [], md_streamBytes = (\<lambda>_. [])\<rparr>"

text \<open>A store whose descriptor set holds one parameter, a \<^verbatim>\<open>float4\<close> named "tint".\<close>

definition tintDesc :: GpuParamDataDesc where
  "tintDesc = \<lparr>gpType = GPDT_FLOAT4, gpBlockIndex = 0, gpOffset = 0, gpArraySize = 1\<rparr>"

definition tintParams :: GpuParams where
  "tintParams =
     \<lparr>mParamDesc = \<lparr>params = [''tint'' \<mapsto> tintDesc]\<rparr>,
      mInternalData =
        \<lparr>mData = replicate 16 0, mNumParamBlocks = 1, mNumTextures = 0, mNumSamplerStates = 0,
         mParamBlocks = [0], mParamBlockBuffers = [0], mTextures = [], mSamplerStates = [],
         mTransposeMatrices = False, mIsDestroyed = False\<rparr>\<rparr>"

text \<open>A descriptor with the fixed-function states and no program.\<close>

definition noProgramsDesc :: PIPELINE_STATE_DESC where
  "noProgramsDesc =
     \<lparr>blendState = Some 1, rasterizerState = Some 2, depthStencilState = Some 3,
      vertexProgram = None, fragmentProgram = None, geometryProgram = None,
      hullProgram = None, domainProgram = None\<rparr>"

section \<open>Notions used in the proofs\<close>

text \<open>
  A submesh list is contiguous from \<open>p\<close> when each submesh starts where the one
  before it ends, the first at \<open>p\<close>.
\<close>

fun contiguous :: "nat \<Rightarrow> SubMesh list \<Rightarrow> bool" where
  "contiguous p [] = True"
| "contiguous p (s # ss) = (indexOffset s = p \<and> contiguous (p + SubMesh.indexCount s) ss)"

text \<open>
  The buffer list of the mesh written from a container whose elements all lie in
  stream 0.
\<close>

definition singleStreamBuffers :: "MeshData \<Rightarrow> (nat \<times> VertexBuffer) list" where
  "singleStreamBuffers d =
     (if md_vertexElements d = [] then []
      else [(0, \<lparr>vbVertexSize = getVertexSize (md_vertexElements d) 0,
                  vbNumVertices = md_numVertices d, vbBytes = md_streamBytes d 0\<rparr>)])"

section \<open>Facts about the container and the write\<close>

lemma writeSubMeshes_filter:
  "writeSubMeshes d js subs =
     subs @ map (\<lambda>i. \<lparr>indexOffset = getIndexBufferOffset d i,
                        indexCount = getNumIndices_subMesh d i,
                        drawOp = getDrawOp d i\<rparr>)
              (filter (\<lambda>i. getNumIndices_subMesh d i > 0) js)"
  by (induction js arbitrary: subs) (simp_all add: Let_def)

lemma filter_declElements:
  "map getSize (filter (\<lambda>e. veStreamIdx e = s) (declElements es offs)) =
   map getSize (filter (\<lambda>e. veStreamIdx e = s) es)"
  by (induction es arbitrary: offs) (simp_all add: getSize_def)

lemma getVertexSize_createDeclaration:
  "getVertexSize (createDeclaration d) s = getVertexSize (md_vertexElements d) s"
  by (simp add: getVertexSize_def createDeclaration_def filter_declElements)

lemma memcpy_whole:
  "n \<le> length src \<Longrightarrow> memcpy (replicate n 0) 0 src 0 n = Some (take n src)"
  by (simp add: memcpy_def)

lemma writeStreams_Some:
  assumes "\<forall>i \<in> set js. hasStream d i \<longrightarrow> getStreamSize d i \<le> length (md_streamBytes d i)"
    and "vertexDeclaration vd = createDeclaration d"
    and "vertexCount vd = md_numVertices d"
  shows "\<exists>vd'. writeStreams d js vd = Some vd'
            \<and> vertexDeclaration vd' = vertexDeclaration vd
            \<and> vertexCount vd' = vertexCount vd"
  using assms
proof (induction js arbitrary: vd)
  case Nil
  then show ?case by simp
next
  case (Cons i js)
  show ?case
  proof (cases "hasStream d i")
    case False
    with Cons show ?thesis by simp
  next
    case True
    with Cons.prems have len: "getStreamSize d i \<le> length (md_streamBytes d i)" by simp
    have sz: "getVertexSize (vertexDeclaration vd) i * vertexCount vd = getStreamSize d i"
      using Cons.prems by (simp add: getStreamSize_def getVertexSize_createDeclaration)
    have cp: "memcpy (vbBytes (createVertexBuffer (getVertexSize (vertexDeclaration vd) i)
                                 (vertexCount vd)))
                0 (getStreamData d i) 0 (getStreamSize d i)
              = Some (take (getStreamSize d i) (md_streamBytes d i))"
      using len sz by (simp add: createVertexBuffer_def getStreamData_def memcpy_whole)
    let ?vd = "vd\<lparr>vertexBuffers :=
                   setBuffer i
                     ((createVertexBuffer (getVertexSize (vertexDeclaration vd) i)
                         (vertexCount vd))
                        \<lparr>vbBytes := take (getStreamSize d i) (md_streamBytes d i)\<rparr>)
                     (vertexBuffers vd)\<rparr>"
    have "\<exists>vd'. writeStreams d js ?vd = Some vd'
            \<and> vertexDeclaration vd' = vertexDeclaration ?vd
            \<and> vertexCount vd' = vertexCount ?vd"
      using Cons.prems by (intro Cons.IH) simp_all
    then show ?thesis using True cp by (simp add: Let_def)
  qed
qed

text \<open>A write of an allocated container returns, and this is the mesh it leaves.\<close>

lemma writeSubresource_Done:
  assumes "MeshData_allocated d"
  shows "\<exists>vd. writeStreams d [0..<Suc (getMaxStreamIdx d)]
                 \<lparr>vertexCount = getNumVertices d, vertexDeclaration = createDeclaration d,
                  vertexBuffers = []\<rparr> = Some vd
          \<and> writeSubresource True m (MeshData_of d) =
             Done \<lparr>mVertexData = Some vd,
                   mIndexData = Some \<lparr>indexBuffer =
                       \<lparr>ibType = getIndexType d, ibNumIndices = getNumIndices d,
                        ibBytes = md_indexBytes d\<rparr>,
                       indexStart = 0, indexCount = getNumIndices d\<rparr>,
                   mSubMeshes = writeSubMeshes d [0..<getNumSubmeshes d] []\<rparr>"
proof -
  let ?vd0 = "\<lparr>vertexCount = getNumVertices d, vertexDeclaration = createDeclaration d,
               vertexBuffers = []\<rparr>"
  have "\<forall>i \<in> set [0..<Suc (getMaxStreamIdx d)].
          hasStream d i \<longrightarrow> getStreamSize d i \<le> length (md_streamBytes d i)"
    using assms by (auto simp: MeshData_allocated_def hasStream_def)
  then obtain vd where vd: "writeStreams d [0..<Suc (getMaxStreamIdx d)] ?vd0 = Some vd"
    using writeStreams_Some [of "[0..<Suc (getMaxStreamIdx d)]" d ?vd0]
    by (auto simp: getNumVertices_def)
  have len: "length (md_indexBytes d) = getNumIndices d * indexSizeOf (md_indexType d)"
    using assms
    by (simp add: MeshData_allocated_def getIndexBufferSize_def getIndexElementSize_def)
  have cp: "memcpy (ibBytes (createIndexBuffer (getIndexType d) (getNumIndices d))) 0
              (getIndexData d) 0 (getIndexBufferSize d) = Some (md_indexBytes d)"
    using len by (simp add: createIndexBuffer_def getIndexData_def getIndexBufferSize_def
        getIndexElementSize_def getIndexType_def memcpy_def)
  show ?thesis
    using vd cp by (simp add: writeSubresource_def Let_def createIndexBuffer_def)
qed

text \<open>A container that went through \<^verbatim>\<open>endDesc\<close> is allocated.\<close>

lemma endDesc_allocated: "MeshData_allocated (endDesc d)"
  by (simp add: MeshData_allocated_def endDesc_def getIndexBufferSize_def getNumIndices_def
      getIndexElementSize_def getStreamSize_def)

lemma update_last: "length xs = n \<Longrightarrow> (xs @ [z])[n := v] = xs @ [v]"
  by (induction xs arbitrary: n) auto

lemma map_nth_upt: "map (\<lambda>i. g (xs ! i)) [0..<length xs] = map g xs"
  by (rule nth_equalityI) simp_all

lemma foldl_addSubMesh:
  assumes "md_subMeshes d0 = []"
  shows "md_subMeshes (foldl (\<lambda>md i. addSubMesh (f i) i md) d0 [0..<n]) =
           map (\<lambda>i. \<lparr>numIndices = f i, subMeshDrawOp = DOT_TRIANGLE_LIST\<rparr>) [0..<n]"
proof (induction n)
  case 0
  with assms show ?case by simp
next
  case (Suc n)
  then show ?case by (simp add: addSubMesh_def update_last)
qed

lemma foldl_addVertElem_subMeshes:
  "md_subMeshes (foldl (\<lambda>md j. addVertElem (t j) (s j) (k j) streamIdx md) d js)
     = md_subMeshes d"
  by (induction js arbitrary: d) (simp_all add: addVertElem_def)

lemma allocStreams_subMeshes:
  "md_subMeshes (allocStreams bufs decl streamIdx d) = md_subMeshes d"
proof (induction bufs arbitrary: streamIdx d)
  case Nil
  then show ?case by simp
next
  case (Cons b bufs)
  obtain k vb where b: "b = (k, vb)" by (cases b)
  show ?case
    unfolding b by (simp add: Let_def Cons.IH foldl_addVertElem_subMeshes)
qed

text \<open>
  The submeshes of the container that \<^verbatim>\<open>allocateSubresourceBuffer\<close> returns have the
  index counts of the submeshes of the mesh, in order, all as triangle lists.
\<close>

lemma allocateSubresourceBuffer_subMeshes:
  assumes "mVertexData m \<noteq> None" and "mIndexData m \<noteq> None"
  shows "\<exists>buf. allocateSubresourceBuffer m = Done buf
           \<and> MeshData_allocated buf
           \<and> md_subMeshes buf =
               map (\<lambda>s. \<lparr>numIndices = SubMesh.indexCount s,
                          subMeshDrawOp = DOT_TRIANGLE_LIST\<rparr>)
                 (mSubMeshes m)"
proof -
  obtain vd where vd: "mVertexData m = Some vd" using assms by auto
  obtain idata where idata: "mIndexData m = Some idata" using assms by auto
  let ?d0 = "beginDesc (MeshData_ctor (vertexCount vd) (ibType (indexBuffer idata)))"
  let ?d1 = "foldl (\<lambda>md i. addSubMesh (SubMesh.indexCount (mSubMeshes m ! i)) i md) ?d0
               [0..<length (mSubMeshes m)]"
  let ?d2 = "allocStreams (vertexBuffers vd) (vertexDeclaration vd) 0 ?d1"
  have a: "allocateSubresourceBuffer m = Done (endDesc ?d2)"
    by (simp add: allocateSubresourceBuffer_def vd idata)
  have "md_subMeshes ?d0 = []" by (simp add: beginDesc_def)
  then have "md_subMeshes ?d1 =
      map (\<lambda>i. \<lparr>numIndices = SubMesh.indexCount (mSubMeshes m ! i),
                 subMeshDrawOp = DOT_TRIANGLE_LIST\<rparr>) [0..<length (mSubMeshes m)]"
    by (rule foldl_addSubMesh)
  also have "\<dots> = map (\<lambda>s. \<lparr>numIndices = SubMesh.indexCount s,
                               subMeshDrawOp = DOT_TRIANGLE_LIST\<rparr>) (mSubMeshes m)"
    by (rule map_nth_upt)
  finally have "md_subMeshes (endDesc ?d2) =
      map (\<lambda>s. \<lparr>numIndices = SubMesh.indexCount s, subMeshDrawOp = DOT_TRIANGLE_LIST\<rparr>)
        (mSubMeshes m)"
    by (simp add: endDesc_def allocStreams_subMeshes)
  with a endDesc_allocated [of ?d2] show ?thesis by blast
qed

lemma filter_nth_upt:
  "map ((!) xs) (filter (\<lambda>i. P (xs ! i)) [0..<length xs]) = filter P xs"
proof -
  have "filter P (map ((!) xs) [0..<length xs]) = filter P xs"
    by (simp add: map_nth)
  then show ?thesis by (simp add: filter_map comp_def)
qed

lemma upt_small: "[0..<3] = [0, 1, 2]" "[0..<2] = [0, 1]" "[0..<Suc 0] = [0]"
  by (simp_all add: upt_rec)

lemmas container_defs =
  getNumSubmeshes_def getNumIndices_subMesh_def getIndexBufferOffset_def getDrawOp_def
  getIndexType_def getNumIndices_def getIndexBufferSize_def getIndexElementSize_def
  getIndexData_def getNumVertices_def createDeclaration_def getMaxStreamIdx_def hasStream_def
  getVertexSize_def getSize_def getStreamSize_def getStreamData_def getIndices16_def
  getIndices32_def

lemma exampleMeshData_allocated: "MeshData_allocated exampleMeshData"
  by (simp add: MeshData_allocated_def exampleMeshData_def container_defs)

lemma exampleMesh_written:
  "writeSubresource True m (MeshData_of exampleMeshData) = Done exampleMesh"
  by (simp add: writeSubresource_def exampleMeshData_def exampleMesh_def Let_def upt_small
      container_defs createIndexBuffer_def createVertexBuffer_def memcpy_def)

lemma twoStreamMesh_written:
  "writeSubresource True m (MeshData_of twoStreamMeshData) = Done twoStreamMesh"
  by (simp add: writeSubresource_def twoStreamMeshData_def twoStreamMesh_def Let_def upt_small
      container_defs createIndexBuffer_def createVertexBuffer_def memcpy_def)

lemmas builder_defs =
  allocateSubresourceBuffer_def MeshData_ctor_def beginDesc_def addSubMesh_def addVertElem_def
  getElementCount_def getElement_def

lemma exampleMesh_allocate:
  "allocateSubresourceBuffer exampleMesh = Done exampleBuffer"
  by (simp add: builder_defs exampleMesh_def exampleBuffer_def Let_def upt_small)

lemma twoStreamMesh_allocate:
  "allocateSubresourceBuffer twoStreamMesh = Done twoStreamBuffer"
  by (simp add: builder_defs twoStreamMesh_def twoStreamBuffer_def Let_def upt_small)

lemma replicate_small:
  "replicate 2 x = [x, x]" "replicate 4 x = [x, x, x, x]" "replicate 6 x = [x, x, x, x, x, x]"
  "replicate 16 x = [x, x, x, x, x, x, x, x, x, x, x, x, x, x, x, x]"
  by (simp_all add: eval_nat_numeral)

text \<open>
  With a single stream, numbered 0, the three operations fit together: what is read
  back into the allocated container is what was written.
\<close>

lemma exampleMesh_read:
  "\<exists>r. readSubresource True exampleMesh (MeshData_of exampleBuffer)
          = Done (exampleMesh, MeshData_of r)
      \<and> getIndexData r = getIndexData exampleMeshData
      \<and> getStreamData r 0 = getStreamData exampleMeshData 0"
  by (simp add: readSubresource_def exampleMesh_def exampleBuffer_def exampleMeshData_def
      endDesc_def Let_def upt_small container_defs getIndexSize_def memcpy_def replicate_small)

lemma twoStreamMesh_read:
  "\<exists>r. readSubresource True twoStreamMesh (MeshData_of twoStreamBuffer)
          = Done (twoStreamMesh, MeshData_of r)
      \<and> getIndexData r = [1, 0]
      \<and> getStreamData r 0 = [1, 2, 3, 4, 5, 6, 7, 8, 0, 0, 0, 0, 0, 0, 0, 0]
      \<and> getStreamData r 1 = [9, 10, 11, 12, 13, 14, 15, 16, 0, 0, 0, 0, 0, 0, 0, 0]"
  by (simp add: readSubresource_def twoStreamMesh_def twoStreamBuffer_def endDesc_def Let_def
      upt_small container_defs getIndexSize_def memcpy_def replicate_small)

section \<open>Writing a single stream and reading it back\<close>

lemma writeSubMeshes_contiguous_aux:
  "k \<le> length xs \<Longrightarrow>
   contiguous (sum_list (map numIndices (take k xs)))
     (map (\<lambda>i. \<lparr>indexOffset = sum_list (map numIndices (take i xs)),
                 indexCount = numIndices (xs ! i), drawOp = subMeshDrawOp (xs ! i)\<rparr>)
        (filter (\<lambda>i. numIndices (xs ! i) > 0) [k..<length xs]))"
proof (induction "length xs - k" arbitrary: k)
  case 0
  then show ?case by simp
next
  case (Suc n)
  then have k: "k < length xs" by simp
  have IH: "contiguous (sum_list (map numIndices (take (Suc k) xs)))
     (map (\<lambda>i. \<lparr>indexOffset = sum_list (map numIndices (take i xs)),
                 indexCount = numIndices (xs ! i), drawOp = subMeshDrawOp (xs ! i)\<rparr>)
        (filter (\<lambda>i. numIndices (xs ! i) > 0) [Suc k..<length xs]))"
    using Suc.hyps(1) [of "Suc k"] Suc.hyps(2) k by simp
  have s: "sum_list (map numIndices (take (Suc k) xs))
           = sum_list (map numIndices (take k xs)) + numIndices (xs ! k)"
    using k by (simp add: take_Suc_conv_app_nth)
  show ?case
    using k IH by (auto simp: upt_rec [of k] s)
qed

lemma contiguous_nth:
  "contiguous p ss \<Longrightarrow> k < length ss \<Longrightarrow>
     indexOffset (ss ! k) = p + sum_list (map SubMesh.indexCount (take k ss))"
proof (induction ss arbitrary: p k)
  case Nil
  then show ?case by simp
next
  case (Cons s ss)
  show ?case
  proof (cases k)
    case 0
    with Cons.prems show ?thesis by simp
  next
    case (Suc j)
    with Cons.prems have "contiguous (p + SubMesh.indexCount s) ss" and "j < length ss"
      by simp_all
    from Cons.IH [OF this] Suc show ?thesis by (simp add: add.assoc)
  qed
qed

lemma sum_take_Suc:
  "k < length (cs::nat list) \<Longrightarrow> sum_list (take (Suc k) cs) = sum_list (take k cs) + cs ! k"
  by (simp add: take_Suc_conv_app_nth)

lemma sum_take_le: "sum_list (take k (cs::nat list)) \<le> sum_list cs"
proof -
  have "sum_list cs = sum_list (take k cs) + sum_list (drop k cs)"
    by (metis append_take_drop_id sum_list_append)
  then show ?thesis by simp
qed

lemma memcpy_same_position:
  assumes "p + n \<le> length dst" and "length src = length dst"
  shows "\<exists>bytes. memcpy dst p src p n = Some bytes \<and> length bytes = length dst
           \<and> take (p + n) bytes @ drop (p + n) src = take p dst @ drop p src"
proof -
  let ?b = "take p dst @ take n (drop p src) @ drop (p + n) dst"
  have m: "memcpy dst p src p n = Some ?b" using assms by (simp add: memcpy_def)
  have l: "length ?b = length dst" using assms by simp
  have l1: "length (take p dst @ take n (drop p src)) = p + n" using assms by simp
  have "take (length (take p dst @ take n (drop p src))) ?b = take p dst @ take n (drop p src)"
    by (metis append_eq_conv_conj append.assoc)
  then have t: "take (p + n) ?b = take p dst @ take n (drop p src)" by (simp only: l1)
  have d: "take n (drop p src) @ drop (p + n) src = drop p src"
    by (metis add.commute append_take_drop_id drop_drop)
  have "take (p + n) ?b @ drop (p + n) src
          = (take p dst @ take n (drop p src)) @ drop (p + n) src"
    by (simp only: t)
  also have "\<dots> = take p dst @ drop p src"
    by (simp only: append_assoc d)
  finally have "take (p + n) ?b @ drop (p + n) src = take p dst @ drop p src" .
  with m l show ?thesis by blast
qed

lemma readIndices_copies:
  assumes "getIndexSize ib = es"
    and "length (ibBytes ib) = sum_list (map SubMesh.indexCount subs) * es"
    and "\<forall>i < length subs. indexOffset (subs ! i) = sum_list (map SubMesh.indexCount (take i subs))"
  shows "k \<le> length subs \<Longrightarrow> getIndexElementSize md = es \<Longrightarrow>
         map numIndices (md_subMeshes md) = map SubMesh.indexCount subs \<Longrightarrow>
         length (md_indexBytes md) = sum_list (map SubMesh.indexCount subs) * es \<Longrightarrow>
         readIndices t ib subs [k..<length subs] md =
           Some (md\<lparr>md_indexBytes :=
                      take (sum_list (map SubMesh.indexCount (take k subs)) * es) (md_indexBytes md)
                      @ drop (sum_list (map SubMesh.indexCount (take k subs)) * es) (ibBytes ib)\<rparr>)"
proof (induction "length subs - k" arbitrary: k md)
  case 0
  then have "k = length subs" by simp
  with 0 assms show ?case by simp
next
  case (Suc n)
  let ?cs = "map SubMesh.indexCount subs"
  let ?p = "sum_list (take k ?cs) * es"
  let ?n = "SubMesh.indexCount (subs ! k) * es"
  from Suc have k: "k < length subs" by simp
  have pn: "?p + ?n = sum_list (take (Suc k) ?cs) * es"
    using k by (simp add: sum_take_Suc add_mult_distrib)
  have "sum_list (take (Suc k) ?cs) \<le> sum_list ?cs" by (rule sum_take_le)
  then have bound: "?p + ?n \<le> length (md_indexBytes md)"
    using Suc.prems pn by simp
  have lens: "length (ibBytes ib) = length (md_indexBytes md)"
    using assms Suc.prems by simp
  from memcpy_same_position [OF bound lens] obtain bytes where
    m: "memcpy (md_indexBytes md) ?p (ibBytes ib) ?p ?n = Some bytes"
    and l: "length bytes = length (md_indexBytes md)"
    and e: "take (?p + ?n) bytes @ drop (?p + ?n) (ibBytes ib)
             = take ?p (md_indexBytes md) @ drop ?p (ibBytes ib)"
    by blast
  have off: "indexOffset (subs ! k) = sum_list (take k ?cs)"
    using assms(3) k by (simp add: take_map)
  have pos: "getIndexBufferOffset md k = sum_list (take k ?cs)"
    using Suc.prems by (simp add: getIndexBufferOffset_def take_map [symmetric])
  have es: "getIndexElementSize md = es" using Suc.prems by simp
  let ?md = "md\<lparr>md_indexBytes := bytes\<rparr>"
  have IH: "readIndices t ib subs [Suc k..<length subs] ?md =
           Some (?md\<lparr>md_indexBytes :=
                      take (sum_list (map SubMesh.indexCount (take (Suc k) subs)) * es) (md_indexBytes ?md)
                      @ drop (sum_list (map SubMesh.indexCount (take (Suc k) subs)) * es) (ibBytes ib)\<rparr>)"
    using Suc.hyps(2) k Suc.prems l
    by (intro Suc.hyps(1)) (simp_all add: getIndexElementSize_def)
  have step: "readIndices t ib subs [k..<length subs] md
                = readIndices t ib subs [Suc k..<length subs] ?md"
    using k m assms(1)
    by (simp add: upt_rec [of k] Let_def getIndices16_def getIndices32_def off pos es)
  show ?case
    using IH e pn by (simp add: step take_map)
qed

lemma fold_max_zero: "\<forall>x \<in> set xs. x = (0::nat) \<Longrightarrow> fold max xs a = a"
  by (induction xs arbitrary: a) simp_all

lemma getMaxStreamIdx_single:
  "\<forall>e \<in> set (md_vertexElements d). veStreamIdx e = 0 \<Longrightarrow> getMaxStreamIdx d = 0"
  by (simp add: getMaxStreamIdx_def fold_max_zero)

lemma hasStream_single:
  "\<forall>e \<in> set (md_vertexElements d). veStreamIdx e = 0 \<Longrightarrow>
     hasStream d 0 \<longleftrightarrow> md_vertexElements d \<noteq> []"
  by (cases "md_vertexElements d") (auto simp: hasStream_def)

lemma write_single_stream:
  assumes "MeshData_allocated d" and "\<forall>e \<in> set (md_vertexElements d). veStreamIdx e = 0"
  shows "writeSubresource True m0 (MeshData_of d) =
     Done \<lparr>mVertexData = Some \<lparr>vertexCount = md_numVertices d,
                                 vertexDeclaration = createDeclaration d,
                                 vertexBuffers = singleStreamBuffers d\<rparr>,
           mIndexData = Some \<lparr>indexBuffer =
               \<lparr>ibType = getIndexType d, ibNumIndices = getNumIndices d,
                ibBytes = md_indexBytes d\<rparr>,
               indexStart = 0, indexCount = getNumIndices d\<rparr>,
           mSubMeshes = writeSubMeshes d [0..<getNumSubmeshes d] []\<rparr>"
proof -
  let ?vd0 = "\<lparr>vertexCount = getNumVertices d, vertexDeclaration = createDeclaration d,
               vertexBuffers = []\<rparr>"
  have ws: "writeStreams d [0..<Suc (getMaxStreamIdx d)] ?vd0 =
          Some \<lparr>vertexCount = md_numVertices d, vertexDeclaration = createDeclaration d,
                vertexBuffers = singleStreamBuffers d\<rparr>"
  proof (cases "md_vertexElements d = []")
    case True
    then show ?thesis
      using assms(2)
      by (simp add: getMaxStreamIdx_single hasStream_single singleStreamBuffers_def
          getNumVertices_def)
  next
    case False
    then have "0 \<in> set (map veStreamIdx (md_vertexElements d))"
      using assms(2) by (cases "md_vertexElements d") auto
    then have len: "length (md_streamBytes d 0) = getStreamSize d 0"
      using assms(1) unfolding MeshData_allocated_def by blast
    have "memcpy (replicate (getStreamSize d 0) 0) 0 (md_streamBytes d 0) 0 (getStreamSize d 0)
            = Some (md_streamBytes d 0)"
      using len by (simp add: memcpy_def)
    then show ?thesis
      using False assms(2)
      by (simp add: getMaxStreamIdx_single hasStream_single singleStreamBuffers_def
          getNumVertices_def Let_def createVertexBuffer_def getVertexSize_createDeclaration
          getStreamData_def getStreamSize_def)
  qed
  from writeSubresource_Done [OF assms(1), of m0] ws show ?thesis by simp
qed

lemma insertElem_append:
  "\<forall>x \<in> set xs. veStreamIdx x \<le> veStreamIdx e \<Longrightarrow> insertElem e xs = xs @ [e]"
  by (induction xs) auto

lemma foldl_addVertElem_fields:
  "md_numVertices (foldl (\<lambda>md j. addVertElem (t j) (s j) (k j) streamIdx md) d js)
     = md_numVertices d
   \<and> md_indexType (foldl (\<lambda>md j. addVertElem (t j) (s j) (k j) streamIdx md) d js)
     = md_indexType d"
  by (induction js arbitrary: d) (simp_all add: addVertElem_def)

lemma foldl_addSubMesh_fields:
  "md_numVertices (foldl (\<lambda>md i. addSubMesh (f i) i md) d js) = md_numVertices d
   \<and> md_indexType (foldl (\<lambda>md i. addSubMesh (f i) i md) d js) = md_indexType d
   \<and> md_vertexElements (foldl (\<lambda>md i. addSubMesh (f i) i md) d js) = md_vertexElements d"
  by (induction js arbitrary: d) (simp_all add: addSubMesh_def)

lemma foldl_addVertElem_elements:
  assumes "md_vertexElements d0 = []"
  shows "n \<le> length decl \<Longrightarrow>
     md_vertexElements
       (foldl (\<lambda>md j. addVertElem (veType (decl ! j)) (veSemantic (decl ! j))
                         (veSemanticIdx (decl ! j)) s md) d0 [0..<n])
     = map (\<lambda>e. \<lparr>veStreamIdx = s, veOffset = 0, veType = veType e,
                   veSemantic = veSemantic e, veSemanticIdx = veSemanticIdx e\<rparr>)
         (take n decl)"
proof (induction n)
  case 0
  with assms show ?case by simp
next
  case (Suc n)
  then have n: "n < length decl" by simp
  have "insertElem \<lparr>veStreamIdx = s, veOffset = 0, veType = veType (decl ! n),
                     veSemantic = veSemantic (decl ! n), veSemanticIdx = veSemanticIdx (decl ! n)\<rparr>
          (map (\<lambda>e. \<lparr>veStreamIdx = s, veOffset = 0, veType = veType e,
                   veSemantic = veSemantic e, veSemanticIdx = veSemanticIdx e\<rparr>) (take n decl))
        = map (\<lambda>e. \<lparr>veStreamIdx = s, veOffset = 0, veType = veType e,
                   veSemantic = veSemantic e, veSemanticIdx = veSemanticIdx e\<rparr>) (take n decl)
          @ [\<lparr>veStreamIdx = s, veOffset = 0, veType = veType (decl ! n),
                     veSemantic = veSemantic (decl ! n), veSemanticIdx = veSemanticIdx (decl ! n)\<rparr>]"
    by (rule insertElem_append) auto
  then show ?case
    using Suc n by (simp add: addVertElem_def take_Suc_conv_app_nth)
qed

lemma allocate_single:
  assumes vd: "mVertexData m = Some vd" and idata: "mIndexData m = Some idata"
    and bufs: "vertexBuffers vd = [] \<or> (\<exists>k vb. vertexBuffers vd = [(k, vb)])"
  shows "\<exists>d2. allocateSubresourceBuffer m = Done (endDesc d2)
           \<and> md_numVertices d2 = vertexCount vd
           \<and> md_indexType d2 = ibType (indexBuffer idata)
           \<and> md_subMeshes d2 =
               map (\<lambda>s. \<lparr>numIndices = SubMesh.indexCount s,
                          subMeshDrawOp = DOT_TRIANGLE_LIST\<rparr>) (mSubMeshes m)
           \<and> md_vertexElements d2 =
               (if vertexBuffers vd = [] then []
                else map (\<lambda>e. \<lparr>veStreamIdx = 0, veOffset = 0, veType = veType e,
                              veSemantic = veSemantic e, veSemanticIdx = veSemanticIdx e\<rparr>)
                       (vertexDeclaration vd))"
proof -
  let ?d0 = "beginDesc (MeshData_ctor (vertexCount vd) (ibType (indexBuffer idata)))"
  let ?d1 = "foldl (\<lambda>md i. addSubMesh (SubMesh.indexCount (mSubMeshes m ! i)) i md) ?d0
               [0..<length (mSubMeshes m)]"
  let ?d2 = "allocStreams (vertexBuffers vd) (vertexDeclaration vd) 0 ?d1"
  have a: "allocateSubresourceBuffer m = Done (endDesc ?d2)"
    by (simp add: allocateSubresourceBuffer_def vd idata)
  have d0: "md_subMeshes ?d0 = []" "md_vertexElements ?d0 = []"
    "md_numVertices ?d0 = vertexCount vd" "md_indexType ?d0 = ibType (indexBuffer idata)"
    by (simp_all add: beginDesc_def MeshData_ctor_def)
  have s1: "md_subMeshes ?d1 =
      map (\<lambda>s. \<lparr>numIndices = SubMesh.indexCount s, subMeshDrawOp = DOT_TRIANGLE_LIST\<rparr>)
        (mSubMeshes m)"
    using foldl_addSubMesh [OF d0(1), of "\<lambda>i. SubMesh.indexCount (mSubMeshes m ! i)"
        "length (mSubMeshes m)"]
      map_nth_upt [of "\<lambda>s. \<lparr>numIndices = SubMesh.indexCount s,
                              subMeshDrawOp = DOT_TRIANGLE_LIST\<rparr>" "mSubMeshes m"]
    by simp
  have f1: "md_numVertices ?d1 = vertexCount vd" "md_indexType ?d1 = ibType (indexBuffer idata)"
    "md_vertexElements ?d1 = []"
    using d0 by (simp_all add: foldl_addSubMesh_fields)
  have s2: "md_subMeshes ?d2 = md_subMeshes ?d1" by (rule allocStreams_subMeshes)
  from bufs show ?thesis
  proof
    assume e: "vertexBuffers vd = []"
    then have "?d2 = ?d1" by simp
    with a s1 f1 e show ?thesis by auto
  next
    assume "\<exists>k vb. vertexBuffers vd = [(k, vb)]"
    then obtain k vb where e: "vertexBuffers vd = [(k, vb)]" by blast
    let ?f = "foldl (\<lambda>md j. addVertElem (veType (vertexDeclaration vd ! j))
                       (veSemantic (vertexDeclaration vd ! j))
                       (veSemanticIdx (vertexDeclaration vd ! j)) 0 md) ?d1
                [0..<length (vertexDeclaration vd)]"
    have d2: "?d2 = ?f"
      by (simp add: e Let_def getElementCount_def getElement_def)
    have "md_vertexElements ?f =
            map (\<lambda>e. \<lparr>veStreamIdx = 0, veOffset = 0, veType = veType e,
                   veSemantic = veSemantic e, veSemanticIdx = veSemanticIdx e\<rparr>)
              (take (length (vertexDeclaration vd)) (vertexDeclaration vd))"
      by (rule foldl_addVertElem_elements [OF f1(3)]) simp
    moreover have "md_numVertices ?f = vertexCount vd" "md_indexType ?f = ibType (indexBuffer idata)"
      using f1 by (simp_all add: foldl_addVertElem_fields)
    ultimately show ?thesis
      using a s1 s2 e unfolding d2 [symmetric] by auto
  qed
qed

lemma sum_filter_nonzero:
  "sum_list (map numIndices (filter (\<lambda>e. numIndices e > 0) xs)) = sum_list (map numIndices xs)"
  by (induction xs) simp_all

lemma map_getSize_declElements: "map getSize (declElements es offs) = map getSize es"
  by (induction es arbitrary: offs) (simp_all add: getSize_def)

lemma getVertexSize_all_zero:
  "\<forall>e \<in> set es. veStreamIdx e = 0 \<Longrightarrow> getVertexSize es 0 = sum_list (map getSize es)"
  by (induction es) (simp_all add: getVertexSize_def)

lemma written_subMeshes_facts:
  fixes d :: MeshData
  defines "subs \<equiv> writeSubMeshes d [0..<getNumSubmeshes d] []"
  shows "sum_list (map SubMesh.indexCount subs) = getNumIndices d"
    and "\<forall>i < length subs. indexOffset (subs ! i) = sum_list (map SubMesh.indexCount (take i subs))"
proof -
  let ?xs = "md_subMeshes d"
  have subs: "subs = map (\<lambda>i. \<lparr>indexOffset = sum_list (map numIndices (take i ?xs)),
                 indexCount = numIndices (?xs ! i), drawOp = subMeshDrawOp (?xs ! i)\<rparr>)
        (filter (\<lambda>i. numIndices (?xs ! i) > 0) [0..<length ?xs])"
    by (simp add: subs_def writeSubMeshes_filter getIndexBufferOffset_def
        getNumIndices_subMesh_def getDrawOp_def getNumSubmeshes_def)
  have "map SubMesh.indexCount subs
          = map numIndices (map ((!) ?xs) (filter (\<lambda>i. numIndices (?xs ! i) > 0) [0..<length ?xs]))"
    by (simp add: subs comp_def)
  also have "\<dots> = map numIndices (filter (\<lambda>e. numIndices e > 0) ?xs)"
    using filter_nth_upt [of ?xs "\<lambda>e. numIndices e > 0"] by simp
  finally show "sum_list (map SubMesh.indexCount subs) = getNumIndices d"
    by (simp add: sum_filter_nonzero getNumIndices_def)
  have "contiguous 0 subs"
    using writeSubMeshes_contiguous_aux [of 0 ?xs] by (simp add: subs)
  then show "\<forall>i < length subs.
      indexOffset (subs ! i) = sum_list (map SubMesh.indexCount (take i subs))"
    using contiguous_nth [of 0 subs] by simp
qed

text \<open>
  Written, allocated for and read back, a container whose vertex elements all lie in
  stream 0 comes back with the bytes that were written, whatever its submeshes.
\<close>

lemma write_read_single_stream:
  assumes alloc: "MeshData_allocated d"
    and single: "\<forall>e \<in> set (md_vertexElements d). veStreamIdx e = 0"
  shows "\<exists>m buf r. writeSubresource True m0 (MeshData_of d) = Done m
           \<and> allocateSubresourceBuffer m = Done buf
           \<and> readSubresource True m (MeshData_of buf) = Done (m, MeshData_of r)
           \<and> getIndexData r = getIndexData d
           \<and> (hasStream d 0 \<longrightarrow> getStreamData r 0 = getStreamData d 0)"
proof -
  let ?subs = "writeSubMeshes d [0..<getNumSubmeshes d] []"
  let ?ib = "\<lparr>ibType = getIndexType d, ibNumIndices = getNumIndices d,
              ibBytes = md_indexBytes d\<rparr>"
  let ?idata = "\<lparr>indexBuffer = ?ib, indexStart = 0, indexCount = getNumIndices d\<rparr>"
  let ?vd = "\<lparr>vertexCount = md_numVertices d, vertexDeclaration = createDeclaration d,
              vertexBuffers = singleStreamBuffers d\<rparr>"
  let ?m = "\<lparr>mVertexData = Some ?vd, mIndexData = Some ?idata, mSubMeshes = ?subs\<rparr>"
  let ?es = "indexSizeOf (md_indexType d)"
  have w: "writeSubresource True m0 (MeshData_of d) = Done ?m"
    by (rule write_single_stream [OF alloc single])
  have "vertexBuffers ?vd = [] \<or> (\<exists>k vb. vertexBuffers ?vd = [(k, vb)])"
    by (simp add: singleStreamBuffers_def)
  from allocate_single [of ?m ?vd ?idata, OF _ _ this] obtain d2 where
    a: "allocateSubresourceBuffer ?m = Done (endDesc d2)"
    and nv: "md_numVertices d2 = md_numVertices d"
    and ty: "md_indexType d2 = getIndexType d"
    and sm: "md_subMeshes d2 =
               map (\<lambda>s. \<lparr>numIndices = SubMesh.indexCount s,
                          subMeshDrawOp = DOT_TRIANGLE_LIST\<rparr>) ?subs"
    and ve: "md_vertexElements d2 =
               (if singleStreamBuffers d = [] then []
                else map (\<lambda>e. \<lparr>veStreamIdx = 0, veOffset = 0, veType = veType e,
                              veSemantic = veSemantic e, veSemanticIdx = veSemanticIdx e\<rparr>)
                       (createDeclaration d))"
    by auto
  let ?buf = "endDesc d2"
  have total: "sum_list (map SubMesh.indexCount ?subs) = getNumIndices d"
    and contig: "\<forall>i < length ?subs.
        indexOffset (?subs ! i) = sum_list (map SubMesh.indexCount (take i ?subs))"
    using written_subMeshes_facts [of d] by simp_all
  have cnt: "map numIndices (md_subMeshes ?buf) = map SubMesh.indexCount ?subs"
    by (simp add: endDesc_def sm comp_def)
  have ri: "readIndices (getIndexType d) ?ib ?subs [0..<length ?subs] ?buf =
              Some (?buf\<lparr>md_indexBytes := md_indexBytes d\<rparr>)"
  proof -
    have 1: "getIndexSize ?ib = ?es" by (simp add: getIndexSize_def getIndexType_def)
    have 2: "length (ibBytes ?ib) = sum_list (map SubMesh.indexCount ?subs) * ?es"
      using alloc
      by (simp add: total MeshData_allocated_def getIndexBufferSize_def getIndexElementSize_def)
    have 3: "getIndexElementSize ?buf = ?es"
      by (simp add: getIndexElementSize_def endDesc_def ty getIndexType_def)
    have 4: "length (md_indexBytes ?buf) = sum_list (map SubMesh.indexCount ?subs) * ?es"
      by (simp add: endDesc_def getIndexBufferSize_def getNumIndices_def sm comp_def
          getIndexElementSize_def ty getIndexType_def)
    from readIndices_copies [OF 1 2 contig, of 0 ?buf "getIndexType d", OF _ 3 cnt 4]
    show ?thesis by simp
  qed
  let ?r1 = "?buf\<lparr>md_indexBytes := md_indexBytes d\<rparr>"
  have rs: "\<exists>r. readStreams (singleStreamBuffers d) 0 ?r1 = Some r
              \<and> md_indexBytes r = md_indexBytes d
              \<and> (hasStream d 0 \<longrightarrow> md_streamBytes r 0 = md_streamBytes d 0)"
  proof (cases "md_vertexElements d = []")
    case True
    then show ?thesis
      using single by (simp add: singleStreamBuffers_def hasStream_single)
  next
    case False
    let ?sz = "sum_list (map getSize (md_vertexElements d)) * md_numVertices d"
    have "0 \<in> set (map veStreamIdx (md_vertexElements d))"
      using False single by (cases "md_vertexElements d") auto
    then have "length (md_streamBytes d 0) = getStreamSize d 0"
      using alloc unfolding MeshData_allocated_def by blast
    then have len: "length (md_streamBytes d 0) = ?sz"
      using single by (simp add: getStreamSize_def getVertexSize_all_zero)
    have vs: "getVertexSize (md_vertexElements d) 0 = sum_list (map getSize (md_vertexElements d))"
      using single by (simp add: getVertexSize_all_zero)
    have "getVertexSize (md_vertexElements d2) 0
            = sum_list (map getSize (md_vertexElements d))"
      using False
      by (simp add: ve singleStreamBuffers_def getVertexSize_def comp_def getSize_def
          createDeclaration_def)
         (metis (no_types) map_getSize_declElements getSize_def map_map comp_def map_eq_conv)
    then have dst: "md_streamBytes ?r1 0 = replicate ?sz 0"
      by (simp add: endDesc_def getStreamSize_def nv)
    have "memcpy (replicate ?sz 0) 0 (md_streamBytes d 0) 0 ?sz = Some (md_streamBytes d 0)"
      using len by (simp add: memcpy_def)
    then show ?thesis
      using False dst
      by (simp add: singleStreamBuffers_def getStreamData_def Let_def vs)
  qed
  then obtain r where r: "readStreams (singleStreamBuffers d) 0 ?r1 = Some r"
    and ri': "md_indexBytes r = md_indexBytes d"
    and rs': "hasStream d 0 \<longrightarrow> md_streamBytes r 0 = md_streamBytes d 0"
    by blast
  have "readSubresource True ?m (MeshData_of ?buf) = Done (?m, MeshData_of r)"
    using ri r by (simp add: readSubresource_def getIndexType_def)
  with w a ri' rs' show ?thesis
    by (auto simp: getIndexData_def getStreamData_def)
qed

section \<open>Properties of \<^verbatim>\<open>Mesh::getSubMeshData\<close>\<close>

text \<open>
  C3. \<^verbatim>\<open>getSubMeshData(index)\<close> fails, with the invalid sub-mesh index condition,
  exactly when the index is outside \<open>[0, submeshCount)\<close>; for every index inside the
  range it returns the bundle of the mesh's index data, its vertex data and the draw
  operation type of the submesh at that index.
\<close>

theorem getSubMeshData_range:
  "((\<exists>e. getSubMeshData m i = Inl e) \<longleftrightarrow> \<not> i < length (mSubMeshes m))
   \<and> (\<not> i < length (mSubMeshes m) \<longrightarrow>
        getSubMeshData m i =
          Inl (InvalidParametersException (InvalidSubMeshIndex i (length (mSubMeshes m)))))
   \<and> (i < length (mSubMeshes m) \<longrightarrow>
        (\<exists>ro. getSubMeshData m i = Inr ro
            \<and> indexData ro = mIndexData m
            \<and> vertexData ro = mVertexData m
            \<and> operationType ro = drawOp (mSubMeshes m ! i)))"
  by (simp add: getSubMeshData_def)


theorem getSubMeshData_range_witness:
  "(1::nat) < length (mSubMeshes exampleMesh)
   \<and> getSubMeshData exampleMesh 1 =
        Inr \<lparr>indexData = mIndexData exampleMesh, vertexData = mVertexData exampleMesh,
             useIndexes = True, operationType = DOT_LINE_LIST\<rparr>
   \<and> \<not> (2::nat) < length (mSubMeshes exampleMesh)
   \<and> getSubMeshData exampleMesh 2 =
        Inl (InvalidParametersException (InvalidSubMeshIndex 2 2))"
proof -
  have a: "(1::nat) < length (mSubMeshes exampleMesh)" by (simp add: exampleMesh_def)
  have b: "\<not> (2::nat) < length (mSubMeshes exampleMesh)" by (simp add: exampleMesh_def)
  have l: "length (mSubMeshes exampleMesh) = 2" by (simp add: exampleMesh_def)
  from getSubMeshData_range [of exampleMesh 1] a obtain ro where
    "getSubMeshData exampleMesh 1 = Inr ro" by blast
  moreover from getSubMeshData_range [of exampleMesh 2] b l
  have "getSubMeshData exampleMesh 2 =
        Inl (InvalidParametersException (InvalidSubMeshIndex 2 2))" by simp
  ultimately show ?thesis
    using a b by (simp add: getSubMeshData_def) (simp add: exampleMesh_def)
qed

text \<open>
  C4. For every in-range submesh index the bundle returned by \<^verbatim>\<open>getSubMeshData\<close>
  refers to the whole index data and the whole vertex data of the mesh, the same for
  all indices: the index range of the requested submesh is not applied.
\<close>

theorem getSubMeshData_whole_buffers:
  assumes "i < length (mSubMeshes m)" and "j < length (mSubMeshes m)"
  shows "\<exists>ri rj. getSubMeshData m i = Inr ri \<and> getSubMeshData m j = Inr rj
           \<and> indexData ri = mIndexData m \<and> vertexData ri = mVertexData m
           \<and> indexData rj = indexData ri \<and> vertexData rj = vertexData ri"
  using assms by (simp add: getSubMeshData_def)

theorem getSubMeshData_whole_buffers_witness:
  "(0::nat) < length (mSubMeshes exampleMesh) \<and> (1::nat) < length (mSubMeshes exampleMesh)
   \<and> (\<exists>ri rj. getSubMeshData exampleMesh 0 = Inr ri \<and> getSubMeshData exampleMesh 1 = Inr rj
        \<and> indexData ri = mIndexData exampleMesh \<and> vertexData ri = mVertexData exampleMesh
        \<and> indexData rj = indexData ri \<and> vertexData rj = vertexData ri)
   \<and> map_option IndexData.indexCount (mIndexData exampleMesh) = Some 3
   \<and> SubMesh.indexCount (mSubMeshes exampleMesh ! 1) = 1"
proof -
  have a: "(0::nat) < length (mSubMeshes exampleMesh)" by (simp add: exampleMesh_def)
  have b: "(1::nat) < length (mSubMeshes exampleMesh)" by (simp add: exampleMesh_def)
  show ?thesis
    using a b getSubMeshData_whole_buffers [OF a b] by (simp add: exampleMesh_def)
qed

section \<open>Properties of \<^verbatim>\<open>Mesh::writeSubresource\<close> and \<^verbatim>\<open>Mesh::readSubresource\<close>\<close>

text \<open>
  C5. On the core thread, writing a mesh-data container returns and leaves a submesh
  list with exactly one entry, in order, for each submesh of the container whose index
  count is not zero: the submeshes with zero indices are left out.
\<close>

theorem writeSubresource_subMeshes:
  assumes "MeshData_allocated d"
  shows "\<exists>m'. writeSubresource True m (MeshData_of d) = Done m'
          \<and> mSubMeshes m' =
              map (\<lambda>i. \<lparr>indexOffset = getIndexBufferOffset d i,
                         indexCount = getNumIndices_subMesh d i,
                         drawOp = getDrawOp d i\<rparr>)
                  (filter (\<lambda>i. getNumIndices_subMesh d i > 0) [0..<getNumSubmeshes d])
          \<and> (\<forall>s \<in> set (mSubMeshes m'). SubMesh.indexCount s > 0)
          \<and> length (mSubMeshes m') = length (filter (\<lambda>e. numIndices e > 0) (md_subMeshes d))"
proof -
  from writeSubresource_Done [OF assms, of m] obtain m' where
    w: "writeSubresource True m (MeshData_of d) = Done m'"
    and s: "mSubMeshes m' = writeSubMeshes d [0..<getNumSubmeshes d] []"
    by auto
  have len: "length (filter (\<lambda>i. getNumIndices_subMesh d i > 0) [0..<getNumSubmeshes d])
               = length (filter (\<lambda>e. numIndices e > 0) (md_subMeshes d))"
    using arg_cong [OF filter_nth_upt [of "md_subMeshes d" "\<lambda>e. numIndices e > 0"], of length]
    by (simp add: getNumIndices_subMesh_def getNumSubmeshes_def)
  show ?thesis
    using w s len by (auto simp: writeSubMeshes_filter)
qed

theorem writeSubresource_subMeshes_witness:
  "MeshData_allocated exampleMeshData
   \<and> (\<exists>m'. writeSubresource True Mesh_ctor (MeshData_of exampleMeshData) = Done m'
        \<and> mSubMeshes m' = [\<lparr>indexOffset = 0, indexCount = 2, drawOp = DOT_TRIANGLE_LIST\<rparr>,
                            \<lparr>indexOffset = 2, indexCount = 1, drawOp = DOT_LINE_LIST\<rparr>])"
proof -
  from writeSubresource_subMeshes [OF exampleMeshData_allocated, of Mesh_ctor]
  obtain m' where "writeSubresource True Mesh_ctor (MeshData_of exampleMeshData) = Done m'"
    by blast
  then show ?thesis
    using exampleMeshData_allocated by (auto simp: exampleMesh_written exampleMesh_def)
qed

text \<open>
  C6. On the core thread, \<^verbatim>\<open>writeSubresource\<close> and \<^verbatim>\<open>readSubresource\<close> given a
  container that is not mesh data raise the invalid resource type condition at once,
  with the submesh list, the index data and the vertex data of the mesh as they were.
\<close>

theorem wrong_type_rejected:
  assumes "getTypeId data \<noteq> TID_MeshData"
  shows "writeSubresource True m data =
           Thrown (InvalidParametersException InvalidGpuResourceDataType) m
       \<and> readSubresource True m data =
           Thrown (InvalidParametersException InvalidGpuResourceDataType) (m, data)"
  using assms by (simp add: writeSubresource_def readSubresource_def)

theorem wrong_type_rejected_witness:
  "getTypeId (OtherData 0) \<noteq> TID_MeshData
   \<and> writeSubresource True exampleMesh (OtherData 0) =
           Thrown (InvalidParametersException InvalidGpuResourceDataType) exampleMesh
   \<and> readSubresource True exampleMesh (OtherData 0) =
           Thrown (InvalidParametersException InvalidGpuResourceDataType)
             (exampleMesh, OtherData 0)"
proof -
  have a: "getTypeId (OtherData 0) \<noteq> TID_MeshData" by simp
  show ?thesis using a wrong_type_rejected [OF a, of exampleMesh] by simp
qed

text \<open>
  C7. Writing the same container twice leaves the mesh as writing it once does: a write
  that returns gives the same mesh from any mesh it starts from (the old submesh list,
  index data and vertex data are replaced, not merged), a write that raises leaves the
  mesh as it was, and on the core thread a write of an allocated container returns.
\<close>

theorem writeSubresource_idempotent:
  "(writeSubresource t m data = Done m1 \<longrightarrow>
      writeSubresource t m1 data = Done m1 \<and> (\<forall>m0. writeSubresource t m0 data = Done m1))
   \<and> (writeSubresource t m data = Thrown e m1 \<longrightarrow>
      m1 = m \<and> writeSubresource t m1 data = Thrown e m1)
   \<and> (\<forall>d. data = MeshData_of d \<and> MeshData_allocated d \<and> t \<longrightarrow>
        (\<exists>m1. writeSubresource t m data = Done m1))"
proof (intro conjI impI allI)
  assume w: "writeSubresource t m data = Done m1"
  have indep: "writeSubresource t m0 data = Done m1" for m0
    using w
    by (auto simp: writeSubresource_def Let_def
        split: if_splits GpuResourceData.splits option.splits)
  show "writeSubresource t m1 data = Done m1" by (rule indep)
  show "writeSubresource t m0 data = Done m1" for m0 by (rule indep)
next
  assume w: "writeSubresource t m data = Thrown e m1"
  then show "m1 = m"
    by (auto simp: writeSubresource_def Let_def
        split: if_splits GpuResourceData.splits option.splits)
  with w show "writeSubresource t m1 data = Thrown e m1" by simp
next
  fix d assume "data = MeshData_of d \<and> MeshData_allocated d \<and> t"
  then show "\<exists>m1. writeSubresource t m data = Done m1"
    using writeSubresource_Done [of d m] by auto
qed

theorem writeSubresource_idempotent_witness:
  "writeSubresource True Mesh_ctor (MeshData_of exampleMeshData) = Done exampleMesh
   \<and> writeSubresource True exampleMesh (MeshData_of exampleMeshData) = Done exampleMesh
   \<and> writeSubresource True twoStreamMesh (MeshData_of exampleMeshData) = Done exampleMesh
   \<and> writeSubresource True exampleMesh (OtherData 0)
       = Thrown (InvalidParametersException InvalidGpuResourceDataType) exampleMesh
   \<and> MeshData_allocated exampleMeshData"
proof -
  have w: "writeSubresource True Mesh_ctor (MeshData_of exampleMeshData) = Done exampleMesh"
    by (rule exampleMesh_written)
  have e: "writeSubresource True exampleMesh (OtherData 0)
       = Thrown (InvalidParametersException InvalidGpuResourceDataType) exampleMesh"
    by (simp add: writeSubresource_def)
  from writeSubresource_idempotent
         [of True Mesh_ctor "MeshData_of exampleMeshData" exampleMesh] w
  have "writeSubresource True exampleMesh (MeshData_of exampleMeshData) = Done exampleMesh"
    and "writeSubresource True twoStreamMesh (MeshData_of exampleMeshData) = Done exampleMesh"
    by blast+
  then show ?thesis
    using w e exampleMeshData_allocated by simp
qed

section \<open>Properties of \<^verbatim>\<open>Mesh::allocateSubresourceBuffer\<close>\<close>

text \<open>
  C10. \<^verbatim>\<open>allocateSubresourceBuffer\<close> reads \<^verbatim>\<open>mVertexData->vertexCount\<close> before any
  null check: on a mesh with no vertex data the call is undefined, and with vertex data
  it returns a container, also when the index data is null.
\<close>

theorem allocateSubresourceBuffer_needs_vertex_data:
  "(mVertexData m = None \<longrightarrow> allocateSubresourceBuffer m = Undefined)
   \<and> (mVertexData m \<noteq> None \<longrightarrow> (\<exists>d. allocateSubresourceBuffer m = Done d))"
  by (auto simp: allocateSubresourceBuffer_def Let_def split: option.splits)

theorem allocateSubresourceBuffer_needs_vertex_data_witness:
  "mVertexData Mesh_ctor = None \<and> allocateSubresourceBuffer Mesh_ctor = Undefined
   \<and> mVertexData verticesOnlyMesh \<noteq> None \<and> mIndexData verticesOnlyMesh = None
   \<and> (\<exists>d. allocateSubresourceBuffer verticesOnlyMesh = Done d)"
  using allocateSubresourceBuffer_needs_vertex_data [of Mesh_ctor]
    allocateSubresourceBuffer_needs_vertex_data [of verticesOnlyMesh]
  by (simp add: Mesh_ctor_def verticesOnlyMesh_def)

text \<open>
  C8, at a mesh with two streams. The mesh written from \<open>twoStreamMeshData\<close> declares
  the position in stream 0 and the texture coordinate in stream 1, four bytes a vertex
  each; the container \<^verbatim>\<open>allocateSubresourceBuffer\<close> returns for it has both elements in
  stream 0 and both in stream 1, eight bytes a vertex each.
\<close>

theorem allocateSubresourceBuffer_two_streams:
  "\<exists>m buf. writeSubresource True Mesh_ctor (MeshData_of twoStreamMeshData) = Done m
     \<and> allocateSubresourceBuffer m = Done buf
     \<and> map_option (\<lambda>vd. map (\<lambda>e. (veStreamIdx e, veSemantic e)) (vertexDeclaration vd))
          (mVertexData m) = Some [(0, VES_POSITION), (1, VES_TEXCOORD)]
     \<and> map (\<lambda>e. (veStreamIdx e, veSemantic e)) (md_vertexElements buf)
          = [(0, VES_POSITION), (0, VES_TEXCOORD), (1, VES_POSITION), (1, VES_TEXCOORD)]
     \<and> map_option (\<lambda>vd. map (getVertexSize (vertexDeclaration vd)) [0, 1]) (mVertexData m)
          = Some [4, 4]
     \<and> map (getVertexSize (md_vertexElements buf)) [0, 1] = [8, 8]"
proof -
  have "map (\<lambda>e. (veStreamIdx e, veSemantic e)) (md_vertexElements twoStreamBuffer)
          = [(0, VES_POSITION), (0, VES_TEXCOORD), (1, VES_POSITION), (1, VES_TEXCOORD)]"
    and "map (getVertexSize (md_vertexElements twoStreamBuffer)) [0, 1] = [8, 8]"
    by (simp_all add: twoStreamBuffer_def endDesc_def getVertexSize_def getSize_def)
  moreover have
    "map_option (\<lambda>vd. map (\<lambda>e. (veStreamIdx e, veSemantic e)) (vertexDeclaration vd))
          (mVertexData twoStreamMesh) = Some [(0, VES_POSITION), (1, VES_TEXCOORD)]"
    and "map_option (\<lambda>vd. map (getVertexSize (vertexDeclaration vd)) [0, 1])
          (mVertexData twoStreamMesh) = Some [4, 4]"
    by (simp_all add: twoStreamMesh_def getVertexSize_def getSize_def)
  ultimately show ?thesis
    using twoStreamMesh_written [of Mesh_ctor] twoStreamMesh_allocate by simp
qed

section \<open>Writing, then reading back\<close>

text \<open>
  C1, at a container with two streams. Written, then read back into the container that
  \<^verbatim>\<open>allocateSubresourceBuffer\<close> returns, the eight bytes of each stream of
  \<open>twoStreamMeshData\<close> come back as sixteen: the allocated streams have a vertex of
  eight bytes, so the second vertex of each stream is not where it was written.
\<close>

theorem write_read_two_streams:
  "\<exists>m buf r. writeSubresource True Mesh_ctor (MeshData_of twoStreamMeshData) = Done m
     \<and> allocateSubresourceBuffer m = Done buf
     \<and> readSubresource True m (MeshData_of buf) = Done (m, MeshData_of r)
     \<and> getStreamData twoStreamMeshData 0 = [1, 2, 3, 4, 5, 6, 7, 8]
     \<and> getStreamData r 0 = [1, 2, 3, 4, 5, 6, 7, 8, 0, 0, 0, 0, 0, 0, 0, 0]
     \<and> getStreamData twoStreamMeshData 1 = [9, 10, 11, 12, 13, 14, 15, 16]
     \<and> getStreamData r 1 = [9, 10, 11, 12, 13, 14, 15, 16, 0, 0, 0, 0, 0, 0, 0, 0]
     \<and> getStreamData r 0 \<noteq> getStreamData twoStreamMeshData 0
     \<and> getStreamData r 1 \<noteq> getStreamData twoStreamMeshData 1"
proof -
  from twoStreamMesh_read obtain r where
    "readSubresource True twoStreamMesh (MeshData_of twoStreamBuffer)
       = Done (twoStreamMesh, MeshData_of r)"
    and "getStreamData r 0 = [1, 2, 3, 4, 5, 6, 7, 8, 0, 0, 0, 0, 0, 0, 0, 0]"
    and "getStreamData r 1 = [9, 10, 11, 12, 13, 14, 15, 16, 0, 0, 0, 0, 0, 0, 0, 0]"
    by blast
  moreover have "getStreamData twoStreamMeshData 0 = [1, 2, 3, 4, 5, 6, 7, 8]"
    and "getStreamData twoStreamMeshData 1 = [9, 10, 11, 12, 13, 14, 15, 16]"
    by (simp_all add: twoStreamMeshData_def getStreamData_def)
  ultimately show ?thesis
    using twoStreamMesh_written [of Mesh_ctor] twoStreamMesh_allocate by simp
qed

section \<open>Properties of \<^verbatim>\<open>GpuParams::getParam\<close>\<close>

text \<open>
  C2. For each of the six element types with a specialisation, \<^verbatim>\<open>getParam<T>\<close>
  raises the invalid parameter condition exactly when the name is absent from the
  descriptor set or the stored type is not the one \<open>T\<close> is checked against; with the
  name present and the type matching it yields the handle of that parameter.
\<close>

theorem getParam_contract:
  assumes "(T, g) \<in> set [(T_float, GPDT_FLOAT1), (T_Vector2, GPDT_FLOAT2),
                          (T_Vector3, GPDT_FLOAT3), (T_Vector4, GPDT_FLOAT4),
                          (T_Matrix3, GPDT_MATRIX_3X3), (T_Matrix4, GPDT_MATRIX_4X4)]"
  shows "((\<exists>msg. getParam T p name = Inl (InvalidParametersException msg)) \<longleftrightarrow>
            (params (mParamDesc p) name = None
             \<or> (\<exists>d. params (mParamDesc p) name = Some d \<and> gpType d \<noteq> g)))
       \<and> (\<forall>d. params (mParamDesc p) name = Some d \<and> gpType d = g \<longrightarrow>
            getParam T p name = Inr \<lparr>hParamDesc = d, hInternalData = mInternalData p\<rparr>)"
proof (cases "params (mParamDesc p) name")
  case None
  with assms show ?thesis
    by (auto simp: getParam_float_def getParam_Vector2_def getParam_Vector3_def
        getParam_Vector4_def getParam_Matrix3_def getParam_Matrix4_def Let_def)
next
  case (Some d)
  with assms show ?thesis
    by (auto simp: getParam_float_def getParam_Vector2_def getParam_Vector3_def
        getParam_Vector4_def getParam_Matrix3_def getParam_Matrix4_def Let_def)
qed

theorem getParam_contract_witness:
  "(T_Vector4, GPDT_FLOAT4) \<in> set [(T_float, GPDT_FLOAT1), (T_Vector2, GPDT_FLOAT2),
                          (T_Vector3, GPDT_FLOAT3), (T_Vector4, GPDT_FLOAT4),
                          (T_Matrix3, GPDT_MATRIX_3X3), (T_Matrix4, GPDT_MATRIX_4X4)]
   \<and> getParam T_Vector4 tintParams ''tint'' =
        Inr \<lparr>hParamDesc = tintDesc, hInternalData = mInternalData tintParams\<rparr>
   \<and> getParam T_float tintParams ''tint'' =
        Inl (InvalidParametersException (CannotFindParameter ''float'' ''tint''))
   \<and> getParam T_Vector4 tintParams ''hue'' =
        Inl (InvalidParametersException (CannotFindParameter ''vector (4)'' ''hue''))"
proof -
  have a: "(T_Vector4, GPDT_FLOAT4) \<in> set [(T_float, GPDT_FLOAT1), (T_Vector2, GPDT_FLOAT2),
                          (T_Vector3, GPDT_FLOAT3), (T_Vector4, GPDT_FLOAT4),
                          (T_Matrix3, GPDT_MATRIX_3X3), (T_Matrix4, GPDT_MATRIX_4X4)]"
    by simp
  have b: "params (mParamDesc tintParams) ''tint'' = Some tintDesc
           \<and> gpType tintDesc = GPDT_FLOAT4"
    by (simp add: tintParams_def tintDesc_def)
  from getParam_contract [OF a, of tintParams "''tint''"] b
  have "getParam T_Vector4 tintParams ''tint'' =
        Inr \<lparr>hParamDesc = tintDesc, hInternalData = mInternalData tintParams\<rparr>"
    by blast
  then show ?thesis
    using a by (simp add: getParam_float_def getParam_Vector4_def tintParams_def tintDesc_def)
qed

section \<open>Properties of the graphics pipeline state\<close>

text \<open>
  C9. Constructing a graphics pipeline state succeeds, and afterwards each of
  \<^verbatim>\<open>hasVertexProgram\<close>, \<^verbatim>\<open>hasFragmentProgram\<close>, \<^verbatim>\<open>hasGeometryProgram\<close>,
  \<^verbatim>\<open>hasHullProgram\<close> and \<^verbatim>\<open>hasDomainProgram\<close> is false for a stage the descriptor
  leaves unset; with no program set all five are false.
\<close>

theorem no_programs_pipeline_state:
  "\<exists>s. TGraphicsPipelineState_ctor desc = Inr s
      \<and> (vertexProgram desc = None \<longrightarrow> \<not> hasVertexProgram s)
      \<and> (fragmentProgram desc = None \<longrightarrow> \<not> hasFragmentProgram s)
      \<and> (geometryProgram desc = None \<longrightarrow> \<not> hasGeometryProgram s)
      \<and> (hullProgram desc = None \<longrightarrow> \<not> hasHullProgram s)
      \<and> (domainProgram desc = None \<longrightarrow> \<not> hasDomainProgram s)"
  by (simp add: TGraphicsPipelineState_ctor_def hasVertexProgram_def hasFragmentProgram_def
      hasGeometryProgram_def hasHullProgram_def hasDomainProgram_def)

theorem no_programs_pipeline_state_witness:
  "vertexProgram noProgramsDesc = None \<and> fragmentProgram noProgramsDesc = None
   \<and> geometryProgram noProgramsDesc = None \<and> hullProgram noProgramsDesc = None
   \<and> domainProgram noProgramsDesc = None
   \<and> (\<exists>s. TGraphicsPipelineState_ctor noProgramsDesc = Inr s
        \<and> \<not> hasVertexProgram s \<and> \<not> hasFragmentProgram s \<and> \<not> hasGeometryProgram s
        \<and> \<not> hasHullProgram s \<and> \<not> hasDomainProgram s)"
  using no_programs_pipeline_state [of noProgramsDesc]
  by (simp add: noProgramsDesc_def)

end
